theory Spec2Isabelle
  imports Main "HOL-Library.Word"
begin

section \<open>The transport core of the Bluetooth audio daemon (ba-transport.c)\<close>

text \<open>
  The C functions of \<^verbatim>\<open>src/ba-transport.c\<close> are embedded as HOL functions over an
  explicit world: a store of transport structures addressed by pointers, the devices
  with their transports tables, and a trace of the calls the code makes into the
  operating system and the libraries (locks, sockets, RPC, threads, frees), together
  with every store to a transport's reference count, which other threads read. Logging
  calls (\<^verbatim>\<open>debug\<close>, \<^verbatim>\<open>warn\<close>, \<^verbatim>\<open>error\<close>) and the
  initialisation of mutexes and conditions are not recorded. What the outside world
  answers (an RPC reply, the result of \<^verbatim>\<open>write\<close>, of \<^verbatim>\<open>pthread_create\<close>)
  is read from an environment that every function takes as its first argument.
\<close>

subsection \<open>Data model\<close>

text \<open>
  Modelled from the spec: the header \<^verbatim>\<open>ba-transport.h\<close> is not among the sources, so the
  profile constants are the six profiles the spec lists, with
  \<^verbatim>\<open>BA_TRANSPORT_PROFILE_NONE\<close> for a transport that has no type yet; a mask is
  the set of the profiles its name joins, and \<^verbatim>\<open>profile & MASK\<close> is membership.
\<close>

datatype ba_transport_profile =
    BA_TRANSPORT_PROFILE_NONE
  | BA_TRANSPORT_PROFILE_A2DP_SOURCE
  | BA_TRANSPORT_PROFILE_A2DP_SINK
  | BA_TRANSPORT_PROFILE_HFP_HF
  | BA_TRANSPORT_PROFILE_HFP_AG
  | BA_TRANSPORT_PROFILE_HSP_HS
  | BA_TRANSPORT_PROFILE_HSP_AG

definition BA_TRANSPORT_PROFILE_MASK_A2DP :: "ba_transport_profile set" where
  "BA_TRANSPORT_PROFILE_MASK_A2DP =
     {BA_TRANSPORT_PROFILE_A2DP_SOURCE, BA_TRANSPORT_PROFILE_A2DP_SINK}"

definition BA_TRANSPORT_PROFILE_MASK_HFP :: "ba_transport_profile set" where
  "BA_TRANSPORT_PROFILE_MASK_HFP =
     {BA_TRANSPORT_PROFILE_HFP_HF, BA_TRANSPORT_PROFILE_HFP_AG}"

definition BA_TRANSPORT_PROFILE_MASK_HSP :: "ba_transport_profile set" where
  "BA_TRANSPORT_PROFILE_MASK_HSP =
     {BA_TRANSPORT_PROFILE_HSP_HS, BA_TRANSPORT_PROFILE_HSP_AG}"

definition BA_TRANSPORT_PROFILE_MASK_SCO :: "ba_transport_profile set" where
  "BA_TRANSPORT_PROFILE_MASK_SCO =
     BA_TRANSPORT_PROFILE_MASK_HFP \<union> BA_TRANSPORT_PROFILE_MASK_HSP"

definition BA_TRANSPORT_PROFILE_MASK_AG :: "ba_transport_profile set" where
  "BA_TRANSPORT_PROFILE_MASK_AG =
     {BA_TRANSPORT_PROFILE_HSP_AG, BA_TRANSPORT_PROFILE_HFP_AG}"

text \<open>
  Modelled from the spec: \<^verbatim>\<open>hfp.h\<close> is not among the sources. The codec field is a
  \<^verbatim>\<open>uint16_t\<close>; the three SCO codec identifiers are distinct codes, here with the
  numbers of the Hands-Free Profile (CVSD 1, mSBC 2) and 0 for the undefined codec.
\<close>

definition HFP_CODEC_UNDEFINED :: "16 word" where "HFP_CODEC_UNDEFINED = 0"
definition HFP_CODEC_CVSD :: "16 word" where "HFP_CODEC_CVSD = 1"
definition HFP_CODEC_MSBC :: "16 word" where "HFP_CODEC_MSBC = 2"

record ba_transport_type =
  profile :: ba_transport_profile
  codec :: "16 word"

text \<open>
  The transport state reported by the Bluetooth daemon. The C type is an enum; a value
  outside the three enumerators is kept as \<open>BLUEZ_A2DP_TRANSPORT_STATE_OTHER\<close>, since
  the code has \<^verbatim>\<open>default\<close> branches for it.
\<close>

datatype bluez_a2dp_transport_state =
    BLUEZ_A2DP_TRANSPORT_STATE_IDLE
  | BLUEZ_A2DP_TRANSPORT_STATE_PENDING
  | BLUEZ_A2DP_TRANSPORT_STATE_ACTIVE
  | BLUEZ_A2DP_TRANSPORT_STATE_OTHER int

datatype ba_transport_pcm_mode =
    BA_TRANSPORT_PCM_MODE_UNSET
  | BA_TRANSPORT_PCM_MODE_SOURCE
  | BA_TRANSPORT_PCM_MODE_SINK

datatype ba_transport_pcm_format =
    BA_TRANSPORT_PCM_FORMAT_UNSET
  | BA_TRANSPORT_PCM_FORMAT_S16_2LE
  | BA_TRANSPORT_PCM_FORMAT_S24_4LE
  | BA_TRANSPORT_PCM_FORMAT_S32_4LE

datatype ba_transport_signal =
    BA_TRANSPORT_SIGNAL_PING
  | BA_TRANSPORT_SIGNAL_PCM_OPEN
  | BA_TRANSPORT_SIGNAL_PCM_CLOSE
  | BA_TRANSPORT_SIGNAL_PCM_PAUSE
  | BA_TRANSPORT_SIGNAL_PCM_RESUME
  | BA_TRANSPORT_SIGNAL_PCM_SYNC
  | BA_TRANSPORT_SIGNAL_PCM_DROP

datatype ba_rfcomm_signal =
    BA_RFCOMM_SIGNAL_HFP_SET_CODEC_CVSD
  | BA_RFCOMM_SIGNAL_HFP_SET_CODEC_MSBC
  | BA_RFCOMM_SIGNAL_UPDATE_VOLUME

text \<open>Pointers: a transport, a device and a worker thread are named by numbers.\<close>

type_synonym tref = nat
type_synonym dref = nat
type_synonym pthread_t = nat

text \<open>
  A pointer to a worker-thread handle or to a PCM endpoint points into a transport:
  it is the transport's pointer together with the member it selects.
\<close>

datatype th_sel = THREAD_ENC | THREAD_DEC

datatype pcm_sel = A2DP_PCM | A2DP_PCM_BC | SCO_SPK_PCM | SCO_MIC_PCM

record ba_transport_thread =
  th_id :: pthread_t
  th_running :: bool
  th_pipe_rd :: int
  th_pipe_wr :: int

record ba_transport_pcm_volume =
  level :: int
  muted :: bool

record ba_transport_pcm =
  pcm_th :: "th_sel option"
  pcm_mode :: ba_transport_pcm_mode
  pcm_fd :: int
  pcm_format :: ba_transport_pcm_format
  pcm_channels :: nat
  pcm_sampling :: nat
  pcm_volume_0 :: ba_transport_pcm_volume
  pcm_volume_1 :: ba_transport_pcm_volume
  pcm_soft_volume :: bool
  pcm_max_bt_volume :: nat
  pcm_delay :: int
  pcm_ba_dbus_path :: "string option"

text \<open>
  The acquire and release members are function pointers; a pointer is the name of the
  function it points to, \<open>None\<close> is \<^verbatim>\<open>NULL\<close>.
\<close>

datatype transport_fn =
    FN_transport_acquire_bt_a2dp
  | FN_transport_release_bt_a2dp
  | FN_transport_acquire_bt_sco
  | FN_transport_release_bt_sco

text \<open>
  The transport structure. The members \<^verbatim>\<open>a2dp\<close> and \<^verbatim>\<open>sco\<close> are written out
  as fields of their own; every function reads and writes only those of the profile
  family it tests for.
\<close>

record ba_transport =
  t_d :: dref
  ttype :: ba_transport_type
  ref_count :: int
  bt_fd :: int
  mtu_read :: nat
  mtu_write :: nat
  bluez_dbus_owner :: "string option"
  bluez_dbus_path :: "string option"
  thread_enc :: ba_transport_thread
  thread_dec :: ba_transport_thread
  acquire :: "transport_fn option"
  release :: "transport_fn option"
  a2dp_state :: bluez_a2dp_transport_state
  a2dp_configuration :: "nat list option"
  a2dp_delay :: int
  a2dp_bt_fd_coutq_init :: int
  a2dp_pcm :: ba_transport_pcm
  a2dp_pcm_bc :: ba_transport_pcm
  sco_spk_pcm :: ba_transport_pcm
  sco_mic_pcm :: ba_transport_pcm
  sco_rfcomm :: "nat option"

text \<open>
  Modelled from the spec: \<^verbatim>\<open>ba-device.h\<close> and \<^verbatim>\<open>ba-adapter.h\<close> are not among
  the sources. The device has its transports table (a hash table from the RPC path to
  the transport), its published path, its address, and what the code reads of its
  adapter: the HCI device number, and \<open>a_esco_support\<close>, the value of
  \<^verbatim>\<open>BA_TEST_ESCO_SUPPORT(device->a)\<close>, whether the adapter supports eSCO links.
\<close>

record ba_device =
  transports :: "string \<rightharpoonup> tref"
  d_ba_dbus_path :: string
  d_addr :: nat
  a_hci_dev_id :: int
  a_esco_support :: bool

subsection \<open>Calls into the outside world\<close>

datatype mutex =
    Transports_mutex dref
  | Type_mtx tref
  | Bt_fd_mtx tref
  | Pcm_mutex tref pcm_sel
  | Pcm_synced_mtx tref pcm_sel
  | Th_ready_mtx tref th_sel

datatype cond = Pcm_synced tref pcm_sel | Th_ready tref th_sel

datatype bt_voice = BT_VOICE_CVSD_16BIT | BT_VOICE_TRANSPARENT

datatype mem =
    Mem_pcm_ba_dbus_path tref pcm_sel
  | Mem_a2dp_configuration tref
  | Mem_bluez_dbus_owner tref
  | Mem_bluez_dbus_path tref
  | Mem_transport tref

datatype event =
    Ev_mutex_lock mutex
  | Ev_mutex_unlock mutex
  | Ev_mutex_destroy mutex
  | Ev_cond_destroy cond
  | Ev_cond_signal cond
  | Ev_dbus_call "string option" "string option" string
  | Ev_dbus_set_property "string option" "string option" string nat
  | Ev_close int
  | Ev_shutdown int
  | Ev_setsockopt_SNDBUF int nat
  | Ev_ioctl_TIOCOUTQ int
  | Ev_hci_sco_open int
  | Ev_hci_sco_connect int nat bt_voice
  | Ev_hci_sco_get_mtu int
  | Ev_write int ba_transport_signal
  | Ev_pipe tref th_sel
  | Ev_pthread_create tref th_sel string
  | Ev_pthread_cancel pthread_t
  | Ev_pthread_join pthread_t
  | Ev_hash_table_insert dref string tref
  | Ev_hash_table_lookup dref string
  | Ev_hash_table_steal dref "string option"
  | Ev_ref_count_store tref int
  | Ev_device_ref dref
  | Ev_device_unref dref
  | Ev_rfcomm_new tref int
  | Ev_rfcomm_destroy nat
  | Ev_rfcomm_send_signal nat ba_rfcomm_signal
  | Ev_dbus_pcm_register tref pcm_sel
  | Ev_dbus_pcm_unregister tref pcm_sel
  | Ev_dbus_pcm_update tref pcm_sel
  | Ev_free mem

text \<open>The calls that are an RPC to the Bluetooth daemon, and those on a socket.\<close>

fun is_rpc :: "event \<Rightarrow> bool" where
  "is_rpc (Ev_dbus_call owner path method) = True"
| "is_rpc (Ev_dbus_set_property owner path name v) = True"
| "is_rpc ev = False"

fun is_socket_op :: "event \<Rightarrow> bool" where
  "is_socket_op (Ev_close fd) = True"
| "is_socket_op (Ev_shutdown fd) = True"
| "is_socket_op (Ev_setsockopt_SNDBUF fd n) = True"
| "is_socket_op (Ev_ioctl_TIOCOUTQ fd) = True"
| "is_socket_op (Ev_hci_sco_open dev) = True"
| "is_socket_op (Ev_hci_sco_connect fd addr voice) = True"
| "is_socket_op (Ev_hci_sco_get_mtu fd) = True"
| "is_socket_op ev = False"

text \<open>
  The reply to a method call sent with
  \<^verbatim>\<open>g_dbus_connection_send_message_with_reply_sync\<close>: no reply object at all, an
  error message with its error code, or a method return. The body of the return of
  \<^verbatim>\<open>Acquire\<close> and \<^verbatim>\<open>TryAcquire\<close> is \<^verbatim>\<open>(hqq)\<close>: a handle index and the two
  MTUs; the file descriptors come attached as a list.
\<close>

datatype gdbus_error =
    G_DBUS_ERROR_NO_REPLY
  | G_DBUS_ERROR_SERVICE_UNKNOWN
  | G_DBUS_ERROR_UNKNOWN_OBJECT
  | G_DBUS_ERROR_OTHER nat

record dbus_body =
  body_handle :: int
  body_mtu_read :: "16 word"
  body_mtu_write :: "16 word"
  body_fd_list :: "int list"

datatype dbus_reply =
    Reply_none
  | Reply_error gdbus_error
  | Reply_method_return dbus_body

text \<open>
  \<^verbatim>\<open>g_unix_fd_list_get(list, index, &err)\<close>: the descriptor at the index, or \<open>-1\<close>
  when the index is out of range. The list holds the descriptors as the call hands
  them out.
\<close>

definition g_unix_fd_list_get :: "int list \<Rightarrow> nat \<Rightarrow> int" where
  "g_unix_fd_list_get fds i = (if i < length fds then fds ! i else -1)"

text \<open>
  What stops the program: a failed \<^verbatim>\<open>g_assert\<close>, and a call or a member access
  through a \<^verbatim>\<open>NULL\<close> pointer. \<open>Use_after_free\<close> is the fault of a caller that
  hands in a transport that was freed; no function of \<^verbatim>\<open>ba-transport.c\<close> returns it.
\<close>

datatype error = Assertion_failed | Null_dereference | Use_after_free

record world =
  heap :: "tref \<Rightarrow> ba_transport"
  live :: "tref set"
  devices :: "dref \<Rightarrow> ba_device"
  trace :: "event list"

definition upd :: "tref \<Rightarrow> (ba_transport \<Rightarrow> ba_transport) \<Rightarrow> world \<Rightarrow> world" where
  "upd p f w = w\<lparr>heap := (heap w)(p := f (heap w p))\<rparr>"

definition emit :: "event list \<Rightarrow> world \<Rightarrow> world" where
  "emit evs w = w\<lparr>trace := trace w @ evs\<rparr>"

text \<open>
  The environment: the build options, the global \<^verbatim>\<open>config\<close> object, and the answers
  of the outside world. \<open>e_calloc\<close> is the block \<^verbatim>\<open>calloc\<close> returns, \<open>e_pipe\<close>
  the two descriptors of \<^verbatim>\<open>pipe\<close>, \<open>e_strdup\<close> whether \<^verbatim>\<open>strdup\<close>
  succeeds, \<open>e_pthread_create\<close> the new thread's identity, \<open>e_write\<close> the
  return value of \<^verbatim>\<open>write\<close>.

  What is not in \<^verbatim>\<open>ba-transport.c\<close> is taken from the environment as well:
  \<^item> \<open>e_decibel_to_loudness_scaled value max\<close> is the value of the C expression
    \<^verbatim>\<open>(int)(audio_decibel_to_loudness(value / 100.0) * max)\<close>, a computation in
    floating point with a function of \<^verbatim>\<open>audio.c\<close>;
  \<^item> \<open>e_a2dp_audio_thread_create\<close> is \<^verbatim>\<open>a2dp_audio_thread_create\<close> of
    \<^verbatim>\<open>a2dp-audio.c\<close>;
  \<^item> \<open>e_ba_rfcomm_new\<close> is \<^verbatim>\<open>ba_rfcomm_new\<close> of \<^verbatim>\<open>ba-rfcomm.c\<close>: the new
    session's handle, or \<^verbatim>\<open>NULL\<close>;
  \<^item> \<open>e_set_codec_a2dp\<close> stands for \<^verbatim>\<open>ba_transport_set_codec_a2dp\<close>, whose result
    is read from the codec tables of \<^verbatim>\<open>a2dp-codecs.h\<close> and \<^verbatim>\<open>a2dp.c\<close>.
\<close>

record env =
  ENABLE_MSBC :: bool
  config_main_thread :: pthread_t
  config_a2dp_volume :: bool
  e_pthread_self :: pthread_t
  e_dbus_send :: "string option \<Rightarrow> string \<Rightarrow> dbus_reply"
  e_ioctl_TIOCOUTQ :: "int \<Rightarrow> int option"
  e_hci_sco_open :: "int \<Rightarrow> int"
  e_hci_sco_connect :: "int \<Rightarrow> nat \<Rightarrow> bt_voice \<Rightarrow> int"
  e_hci_sco_get_mtu :: "int \<Rightarrow> nat"
  e_write :: "int \<Rightarrow> ba_transport_signal \<Rightarrow> int"
  e_pthread_create :: "tref \<Rightarrow> th_sel \<Rightarrow> pthread_t option"
  e_calloc :: "tref option"
  e_pipe :: "th_sel \<Rightarrow> (int \<times> int) option"
  e_strdup :: "string \<Rightarrow> bool"
  e_ba_rfcomm_new :: "int \<Rightarrow> nat option"
  e_decibel_to_loudness_scaled :: "int \<Rightarrow> nat \<Rightarrow> int"
  e_a2dp_audio_thread_create :: "tref \<Rightarrow> world \<Rightarrow> error + int \<times> world"
  e_set_codec_a2dp :: "ba_transport \<Rightarrow> error + ba_transport"

subsection \<open>Acquire and release strategies\<close>

text \<open>
  The members \<^verbatim>\<open>mtu_read\<close> and \<^verbatim>\<open>mtu_write\<close> are of the type \<^verbatim>\<open>size_t\<close>
  (line 917 prints them with \<^verbatim>\<open>%zu\<close>), here 64 bits wide and little-endian. A store
  of a 16-bit value through a \<^verbatim>\<open>uint16_t\<close> pointer to such a member replaces its
  low 16 bits and leaves the other bits as they were.
\<close>

definition store_uint16 :: "nat \<Rightarrow> 16 word \<Rightarrow> nat" where
  "store_uint16 old v = (old div 65536) * 65536 + unat v"

text \<open>
  \<^verbatim>\<open>transport_acquire_bt_a2dp\<close> (lines 872-931). The reply's MTUs are stored through
  \<^verbatim>\<open>uint16_t\<close> pointers (lines 900-901); the descriptor is the one at index 0 of the
  attached list; the size of the send buffer is three times the write MTU as it is
  after the store, a product of \<^verbatim>\<open>size_t\<close> values.
\<close>

definition transport_acquire_bt_a2dp :: "env \<Rightarrow> tref \<Rightarrow> world \<Rightarrow> int \<times> world" where
  "transport_acquire_bt_a2dp env p w =
    (let t = heap w p in
     if bt_fd t \<noteq> -1 then
       (bt_fd t, emit [Ev_mutex_lock (Bt_fd_mtx p), Ev_mutex_unlock (Bt_fd_mtx p)] w)
     else
       let method = (if a2dp_state t = BLUEZ_A2DP_TRANSPORT_STATE_PENDING
                     then ''TryAcquire'' else ''Acquire'');
           call = Ev_dbus_call (bluez_dbus_owner t) (bluez_dbus_path t) method
       in case e_dbus_send env (bluez_dbus_path t) method of
            Reply_none \<Rightarrow>
              (-1, emit [Ev_mutex_lock (Bt_fd_mtx p), call, Ev_mutex_unlock (Bt_fd_mtx p)] w)
          | Reply_error code \<Rightarrow>
              (-1, emit [Ev_mutex_lock (Bt_fd_mtx p), call, Ev_mutex_unlock (Bt_fd_mtx p)] w)
          | Reply_method_return body \<Rightarrow>
              let fd = g_unix_fd_list_get (body_fd_list body) 0;
                  mr = store_uint16 (mtu_read t) (body_mtu_read body);
                  mw = store_uint16 (mtu_write t) (body_mtu_write body);
                  size = (mw * 3) mod 2 ^ 64;
                  coutq = (case e_ioctl_TIOCOUTQ env fd of
                             None \<Rightarrow> a2dp_bt_fd_coutq_init t
                           | Some q \<Rightarrow> q);
                  w1 = upd p (\<lambda>t. t\<lparr>mtu_read := mr,
                                     mtu_write := mw,
                                     bt_fd := fd,
                                     a2dp_bt_fd_coutq_init := coutq\<rparr>) w
              in (fd, emit [Ev_mutex_lock (Bt_fd_mtx p), call,
                            Ev_setsockopt_SNDBUF fd size, Ev_ioctl_TIOCOUTQ fd,
                            Ev_mutex_unlock (Bt_fd_mtx p)] w1))"

text \<open>\<^verbatim>\<open>transport_release_bt_a2dp\<close> (lines 933-1000).\<close>

definition transport_release_bt_a2dp :: "env \<Rightarrow> tref \<Rightarrow> world \<Rightarrow> int \<times> world" where
  "transport_release_bt_a2dp env p w =
    (let t = heap w p;
         lock = Ev_mutex_lock (Bt_fd_mtx p);
         unlock = Ev_mutex_unlock (Bt_fd_mtx p);
         call = Ev_dbus_call (bluez_dbus_owner t) (bluez_dbus_path t) ''Release'';
         closed = upd p (\<lambda>t. t\<lparr>bt_fd := -1\<rparr>) w
     in
     if bt_fd t = -1 then (0, emit [lock, unlock] w)
     else if a2dp_state t \<noteq> BLUEZ_A2DP_TRANSPORT_STATE_IDLE \<and> bluez_dbus_owner t \<noteq> None then
       (case e_dbus_send env (bluez_dbus_path t) ''Release'' of
          Reply_none \<Rightarrow> (-1, emit [lock, call, unlock] w)
        | Reply_error code \<Rightarrow>
            if code = G_DBUS_ERROR_NO_REPLY \<or> code = G_DBUS_ERROR_SERVICE_UNKNOWN \<or>
               code = G_DBUS_ERROR_UNKNOWN_OBJECT
            then (0, emit [lock, call, Ev_close (bt_fd t), unlock] closed)
            else (-1, emit [lock, call, unlock] w)
        | Reply_method_return body \<Rightarrow>
            (0, emit [lock, call, Ev_close (bt_fd t), unlock] closed))
     else (0, emit [lock, Ev_close (bt_fd t), unlock] closed))"

text \<open>\<^verbatim>\<open>transport_acquire_bt_sco\<close> (lines 1002-1039).\<close>

definition transport_acquire_bt_sco :: "env \<Rightarrow> tref \<Rightarrow> world \<Rightarrow> int \<times> world" where
  "transport_acquire_bt_sco env p w =
    (let t = heap w p;
         dev = devices w (t_d t);
         lock = Ev_mutex_lock (Bt_fd_mtx p);
         unlock = Ev_mutex_unlock (Bt_fd_mtx p)
     in
     if bt_fd t \<noteq> -1 then (bt_fd t, emit [lock, unlock] w)
     else
       let fd = e_hci_sco_open env (a_hci_dev_id dev);
           sco_open = Ev_hci_sco_open (a_hci_dev_id dev)
       in
       if fd = -1 then (-1, emit [lock, sco_open, unlock] w)
       else
         let voice = (if codec (ttype t) = HFP_CODEC_CVSD
                      then BT_VOICE_CVSD_16BIT else BT_VOICE_TRANSPARENT);
             sco_connect = Ev_hci_sco_connect fd (d_addr dev) voice
         in
         if e_hci_sco_connect env fd (d_addr dev) voice = -1 then
           (-1, emit [lock, sco_open, sco_connect, Ev_close fd, unlock] w)
         else
           let mtu = e_hci_sco_get_mtu env fd;
               w1 = upd p (\<lambda>t. t\<lparr>mtu_read := mtu, mtu_write := mtu, bt_fd := fd\<rparr>) w
           in (fd, emit [lock, sco_open, sco_connect, Ev_hci_sco_get_mtu fd, unlock] w1))"

text \<open>\<^verbatim>\<open>transport_release_bt_sco\<close> (lines 1041-1057).\<close>

definition transport_release_bt_sco :: "env \<Rightarrow> tref \<Rightarrow> world \<Rightarrow> int \<times> world" where
  "transport_release_bt_sco env p w =
    (let t = heap w p;
         lock = Ev_mutex_lock (Bt_fd_mtx p);
         unlock = Ev_mutex_unlock (Bt_fd_mtx p)
     in
     if bt_fd t = -1 then (0, emit [lock, unlock] w)
     else (0, emit [lock, Ev_shutdown (bt_fd t), Ev_close (bt_fd t), unlock]
                (upd p (\<lambda>t. t\<lparr>bt_fd := -1\<rparr>) w)))"

subsection \<open>Members of a transport\<close>

fun thread_of :: "th_sel \<Rightarrow> ba_transport \<Rightarrow> ba_transport_thread" where
  "thread_of THREAD_ENC t = thread_enc t"
| "thread_of THREAD_DEC t = thread_dec t"

fun thread_upd ::
  "th_sel \<Rightarrow> (ba_transport_thread \<Rightarrow> ba_transport_thread) \<Rightarrow> ba_transport \<Rightarrow> ba_transport" where
  "thread_upd THREAD_ENC f t = t\<lparr>thread_enc := f (thread_enc t)\<rparr>"
| "thread_upd THREAD_DEC f t = t\<lparr>thread_dec := f (thread_dec t)\<rparr>"

fun pcm_of :: "pcm_sel \<Rightarrow> ba_transport \<Rightarrow> ba_transport_pcm" where
  "pcm_of A2DP_PCM t = a2dp_pcm t"
| "pcm_of A2DP_PCM_BC t = a2dp_pcm_bc t"
| "pcm_of SCO_SPK_PCM t = sco_spk_pcm t"
| "pcm_of SCO_MIC_PCM t = sco_mic_pcm t"

fun pcm_upd ::
  "pcm_sel \<Rightarrow> (ba_transport_pcm \<Rightarrow> ba_transport_pcm) \<Rightarrow> ba_transport \<Rightarrow> ba_transport" where
  "pcm_upd A2DP_PCM f t = t\<lparr>a2dp_pcm := f (a2dp_pcm t)\<rparr>"
| "pcm_upd A2DP_PCM_BC f t = t\<lparr>a2dp_pcm_bc := f (a2dp_pcm_bc t)\<rparr>"
| "pcm_upd SCO_SPK_PCM f t = t\<lparr>sco_spk_pcm := f (sco_spk_pcm t)\<rparr>"
| "pcm_upd SCO_MIC_PCM f t = t\<lparr>sco_mic_pcm := f (sco_mic_pcm t)\<rparr>"

subsection \<open>Worker threads and their signal pipe\<close>

text \<open>\<^verbatim>\<open>ba_transport_thread_send_signal\<close> (lines 1111-1115): the result is that of \<^verbatim>\<open>write\<close>.\<close>

definition ba_transport_thread_send_signal ::
  "env \<Rightarrow> tref \<Rightarrow> th_sel \<Rightarrow> ba_transport_signal \<Rightarrow> world \<Rightarrow> int \<times> world" where
  "ba_transport_thread_send_signal env p th sig w =
    (let fd = th_pipe_wr (thread_of th (heap w p))
     in (e_write env fd sig, emit [Ev_write fd sig] w))"

text \<open>
  \<^verbatim>\<open>ba_transport_pcm_pause\<close>, \<^verbatim>\<open>ba_transport_pcm_resume\<close> (lines 828-838) and
  \<^verbatim>\<open>ba_transport_pcm_drop\<close> (lines 866-870). The endpoint's back-reference
  \<^verbatim>\<open>pcm->t\<close> is the transport the endpoint is a member of.
\<close>

definition ba_transport_pcm_pause :: "env \<Rightarrow> tref \<Rightarrow> pcm_sel \<Rightarrow> world \<Rightarrow> error + int \<times> world" where
  "ba_transport_pcm_pause env p pcm w =
    (case pcm_th (pcm_of pcm (heap w p)) of
       None \<Rightarrow> Inl Null_dereference
     | Some th \<Rightarrow>
         let (r, w1) = ba_transport_thread_send_signal env p th BA_TRANSPORT_SIGNAL_PCM_PAUSE w
         in Inr (0, w1))"

definition ba_transport_pcm_resume :: "env \<Rightarrow> tref \<Rightarrow> pcm_sel \<Rightarrow> world \<Rightarrow> error + int \<times> world" where
  "ba_transport_pcm_resume env p pcm w =
    (case pcm_th (pcm_of pcm (heap w p)) of
       None \<Rightarrow> Inl Null_dereference
     | Some th \<Rightarrow>
         let (r, w1) = ba_transport_thread_send_signal env p th BA_TRANSPORT_SIGNAL_PCM_RESUME w
         in Inr (0, w1))"

definition ba_transport_pcm_drop :: "env \<Rightarrow> tref \<Rightarrow> pcm_sel \<Rightarrow> world \<Rightarrow> int \<times> world" where
  "ba_transport_pcm_drop env p pcm w =
    (let (r, w1) = ba_transport_thread_send_signal env p THREAD_ENC BA_TRANSPORT_SIGNAL_PCM_DROP w
     in (0, w1))"

text \<open>
  \<^verbatim>\<open>transport_thread_init\<close> (lines 106-122); \<^verbatim>\<open>th->t\<close> is the transport the handle
  is a member of.
\<close>

definition transport_thread_init :: "env \<Rightarrow> tref \<Rightarrow> th_sel \<Rightarrow> world \<Rightarrow> int \<times> world" where
  "transport_thread_init env p th w =
    (let w1 = upd p (thread_upd th (\<lambda>x. x\<lparr>th_id := config_main_thread env,
                                          th_pipe_rd := -1, th_pipe_wr := -1\<rparr>)) w;
         w2 = emit [Ev_pipe p th] w1
     in case e_pipe env th of
          None \<Rightarrow> (-1, w2)
        | Some (r, wr) \<Rightarrow>
            (0, upd p (thread_upd th (\<lambda>x. x\<lparr>th_pipe_rd := r, th_pipe_wr := wr\<rparr>)) w2))"

text \<open>
  \<^verbatim>\<open>transport_thread_cancel\<close> (lines 126-144). What the cancelled thread does before it
  is joined (its cleanup handler) runs in that thread and is not part of this function.
\<close>

definition transport_thread_cancel :: "env \<Rightarrow> tref \<Rightarrow> th_sel \<Rightarrow> world \<Rightarrow> world" where
  "transport_thread_cancel env p th w =
    (let i = th_id (thread_of th (heap w p))
     in if i = config_main_thread env \<or> i = e_pthread_self env then w
        else emit [Ev_pthread_cancel i, Ev_pthread_join i]
               (upd p (thread_upd th (\<lambda>x. x\<lparr>th_id := config_main_thread env,
                                            th_running := False\<rparr>)) w))"

text \<open>\<^verbatim>\<open>transport_thread_free\<close> (lines 148-156).\<close>

definition transport_thread_free :: "tref \<Rightarrow> th_sel \<Rightarrow> world \<Rightarrow> world" where
  "transport_thread_free p th w =
    (let x = thread_of th (heap w p)
     in emit ((if th_pipe_rd x \<noteq> -1 then [Ev_close (th_pipe_rd x)] else []) @
              (if th_pipe_wr x \<noteq> -1 then [Ev_close (th_pipe_wr x)] else []) @
              [Ev_mutex_destroy (Th_ready_mtx p th), Ev_cond_destroy (Th_ready p th)]) w)"

subsection \<open>PCM endpoints\<close>

text \<open>\<^verbatim>\<open>transport_get_dbus_path_type\<close> (lines 47-65).\<close>

fun transport_get_dbus_path_type :: "ba_transport_type \<Rightarrow> string option" where
  "transport_get_dbus_path_type ty =
    (case profile ty of
       BA_TRANSPORT_PROFILE_A2DP_SOURCE \<Rightarrow> Some ''a2dpsrc''
     | BA_TRANSPORT_PROFILE_A2DP_SINK \<Rightarrow> Some ''a2dpsnk''
     | BA_TRANSPORT_PROFILE_HFP_HF \<Rightarrow> Some ''hfphf''
     | BA_TRANSPORT_PROFILE_HFP_AG \<Rightarrow> Some ''hfpag''
     | BA_TRANSPORT_PROFILE_HSP_HS \<Rightarrow> Some ''hsphs''
     | BA_TRANSPORT_PROFILE_HSP_AG \<Rightarrow> Some ''hspag''
     | BA_TRANSPORT_PROFILE_NONE \<Rightarrow> None)"

text \<open>
  \<^verbatim>\<open>transport_pcm_init\<close> (lines 67-88). \<^verbatim>\<open>g_strdup_printf\<close> prints a \<^verbatim>\<open>NULL\<close>
  string as \<^verbatim>\<open>(null)\<close>.
\<close>

definition transport_pcm_init ::
  "tref \<Rightarrow> pcm_sel \<Rightarrow> th_sel \<Rightarrow> ba_transport_pcm_mode \<Rightarrow> world \<Rightarrow> world" where
  "transport_pcm_init p pcm th m w =
    (let t = heap w p;
         path = d_ba_dbus_path (devices w (t_d t)) @ ''/'' @
                (case transport_get_dbus_path_type (ttype t) of
                   None \<Rightarrow> ''(null)'' | Some s \<Rightarrow> s) @ ''/'' @
                (if m = BA_TRANSPORT_PCM_MODE_SOURCE then ''source'' else ''sink'')
     in upd p (pcm_upd pcm (\<lambda>x. x\<lparr>pcm_th := Some th, pcm_mode := m, pcm_fd := -1,
                                  pcm_ba_dbus_path := Some path\<rparr>)) w)"

text \<open>
  \<^verbatim>\<open>ba_transport_pcm_release\<close> (lines 1059-1076). The assertion of debug builds, that
  the caller holds the endpoint's mutex, is about lock ownership, which the world does
  not record; \<open>transport_pcm_free\<close>, the only caller here, takes the mutex first.
\<close>

definition ba_transport_pcm_release :: "tref \<Rightarrow> pcm_sel \<Rightarrow> world \<Rightarrow> int \<times> world" where
  "ba_transport_pcm_release p pcm w =
    (let x = pcm_of pcm (heap w p)
     in if pcm_fd x = -1 then (0, w)
        else (0, emit [Ev_close (pcm_fd x)] (upd p (pcm_upd pcm (\<lambda>x. x\<lparr>pcm_fd := -1\<rparr>)) w)))"

text \<open>\<^verbatim>\<open>transport_pcm_free\<close> (lines 90-104).\<close>

definition transport_pcm_free :: "tref \<Rightarrow> pcm_sel \<Rightarrow> world \<Rightarrow> world" where
  "transport_pcm_free p pcm w =
    (let w1 = emit [Ev_mutex_lock (Pcm_mutex p pcm)] w;
         (r, w2) = ba_transport_pcm_release p pcm w1;
         w3 = emit [Ev_mutex_unlock (Pcm_mutex p pcm),
                    Ev_mutex_destroy (Pcm_mutex p pcm),
                    Ev_mutex_destroy (Pcm_synced_mtx p pcm),
                    Ev_cond_destroy (Pcm_synced p pcm)] w2
     in if pcm_ba_dbus_path (pcm_of pcm (heap w3 p)) \<noteq> None
        then emit [Ev_free (Mem_pcm_ba_dbus_path p pcm)] w3 else w3)"

subsection \<open>Reference counting\<close>

text \<open>\<^verbatim>\<open>ba_transport_lookup\<close> (lines 322-334).\<close>

definition ba_transport_lookup :: "dref \<Rightarrow> string \<Rightarrow> world \<Rightarrow> tref option \<times> world" where
  "ba_transport_lookup dv path w =
    (let w1 = emit [Ev_mutex_lock (Transports_mutex dv), Ev_hash_table_lookup dv path] w;
         r = transports (devices w1 dv) path;
         w2 = (case r of
                 None \<Rightarrow> w1
               | Some p \<Rightarrow>
                   emit [Ev_ref_count_store p (ref_count (heap w1 p) + 1)]
                     (upd p (\<lambda>t. t\<lparr>ref_count := ref_count t + 1\<rparr>) w1))
     in (r, emit [Ev_mutex_unlock (Transports_mutex dv)] w2))"

text \<open>\<^verbatim>\<open>ba_transport_ref\<close> (lines 336-346).\<close>

definition ba_transport_ref :: "tref \<Rightarrow> world \<Rightarrow> world" where
  "ba_transport_ref p w =
    (let dv = t_d (heap w p);
         w1 = emit [Ev_mutex_lock (Transports_mutex dv)] w;
         w2 = emit [Ev_ref_count_store p (ref_count (heap w1 p) + 1)]
                (upd p (\<lambda>t. t\<lparr>ref_count := ref_count t + 1\<rparr>) w1)
     in emit [Ev_mutex_unlock (Transports_mutex dv)] w2)"

text \<open>
  \<^verbatim>\<open>g_hash_table_steal(table, key)\<close> removes the key without freeing anything. The
  table's keys are strings; a \<^verbatim>\<open>NULL\<close> key names no entry.
\<close>

definition g_hash_table_steal :: "dref \<Rightarrow> string option \<Rightarrow> world \<Rightarrow> world" where
  "g_hash_table_steal dv key w =
    (let dev = devices w dv;
         tbl = (case key of None \<Rightarrow> transports dev | Some k \<Rightarrow> (transports dev)(k := None))
     in emit [Ev_hash_table_steal dv key]
          (w\<lparr>devices := (devices w)(dv := dev\<lparr>transports := tbl\<rparr>)\<rparr>))"

text \<open>
  \<^verbatim>\<open>ba_transport_unref\<close> (lines 392-434). The part up to the unlock runs with the
  device's transports mutex held: the store of the decremented count and, at zero, the
  removal from the table. The rest runs without the mutex and ends by freeing the
  structure, which leaves the set of live transports.
\<close>

definition ba_transport_unref :: "tref \<Rightarrow> world \<Rightarrow> error + world" where
  "ba_transport_unref p w =
    (let dv = t_d (heap w p);
         w1 = emit [Ev_mutex_lock (Transports_mutex dv)] w;
         w2 = emit [Ev_ref_count_store p (ref_count (heap w1 p) - 1)]
                (upd p (\<lambda>t. t\<lparr>ref_count := ref_count t - 1\<rparr>) w1);
         rc = ref_count (heap w2 p);
         w3 = (if rc = 0 then g_hash_table_steal dv (bluez_dbus_path (heap w2 p)) w2 else w2);
         w4 = emit [Ev_mutex_unlock (Transports_mutex dv)] w3
     in if rc > 0 then Inr w4
        else if rc \<noteq> 0 then Inl Assertion_failed
        else
          let t = heap w4 p;
              w5 = (if bt_fd t \<noteq> -1 then emit [Ev_close (bt_fd t)] w4 else w4);
              w6 = emit [Ev_device_unref dv] w5;
              w7 = (if profile (ttype t) \<in> BA_TRANSPORT_PROFILE_MASK_A2DP then
                      emit [Ev_free (Mem_a2dp_configuration p)]
                        (transport_pcm_free p A2DP_PCM_BC (transport_pcm_free p A2DP_PCM w6))
                    else if profile (ttype t) \<in> BA_TRANSPORT_PROFILE_MASK_SCO then
                      transport_pcm_free p SCO_MIC_PCM
                        (transport_pcm_free p SCO_SPK_PCM
                          (case sco_rfcomm t of
                             None \<Rightarrow> w6
                           | Some r \<Rightarrow> emit [Ev_rfcomm_destroy r] w6))
                    else w6);
              w8 = transport_thread_free p THREAD_DEC (transport_thread_free p THREAD_ENC w7);
              w9 = emit [Ev_mutex_destroy (Bt_fd_mtx p), Ev_mutex_destroy (Type_mtx p),
                         Ev_free (Mem_bluez_dbus_owner p), Ev_free (Mem_bluez_dbus_path p),
                         Ev_free (Mem_transport p)] w8
          in Inr (w9\<lparr>live := live w9 - {p}\<rparr>))"

subsection \<open>Creating transports\<close>

text \<open>The block \<^verbatim>\<open>calloc\<close> returns: every member is zero.\<close>

definition zero_thread :: ba_transport_thread where
  "zero_thread = \<lparr>th_id = 0, th_running = False, th_pipe_rd = 0, th_pipe_wr = 0\<rparr>"

definition zero_pcm :: ba_transport_pcm where
  "zero_pcm = \<lparr>pcm_th = None, pcm_mode = BA_TRANSPORT_PCM_MODE_UNSET, pcm_fd = 0,
     pcm_format = BA_TRANSPORT_PCM_FORMAT_UNSET, pcm_channels = 0, pcm_sampling = 0,
     pcm_volume_0 = \<lparr>level = 0, muted = False\<rparr>,
     pcm_volume_1 = \<lparr>level = 0, muted = False\<rparr>,
     pcm_soft_volume = False, pcm_max_bt_volume = 0, pcm_delay = 0,
     pcm_ba_dbus_path = None\<rparr>"

definition zero_transport :: ba_transport where
  "zero_transport = \<lparr>t_d = 0,
     ttype = \<lparr>profile = BA_TRANSPORT_PROFILE_NONE, codec = 0\<rparr>,
     ref_count = 0, bt_fd = 0, mtu_read = 0, mtu_write = 0,
     bluez_dbus_owner = None, bluez_dbus_path = None,
     thread_enc = zero_thread, thread_dec = zero_thread,
     acquire = None, release = None,
     a2dp_state = BLUEZ_A2DP_TRANSPORT_STATE_IDLE,
     a2dp_configuration = None, a2dp_delay = 0, a2dp_bt_fd_coutq_init = 0,
     a2dp_pcm = zero_pcm, a2dp_pcm_bc = zero_pcm,
     sco_spk_pcm = zero_pcm, sco_mic_pcm = zero_pcm,
     sco_rfcomm = None\<rparr>"

text \<open>
  \<^verbatim>\<open>transport_new\<close> (lines 167-209): the new transport's pointer, or \<open>None\<close> for
  \<^verbatim>\<open>NULL\<close>. Every failure after the allocation ends in \<^verbatim>\<open>ba_transport_unref\<close>.
\<close>

definition transport_new ::
  "env \<Rightarrow> dref \<Rightarrow> string \<Rightarrow> string \<Rightarrow> world \<Rightarrow> error + tref option \<times> world" where
  "transport_new env dv dbus_owner dbus_path w =
    (case e_calloc env of
       None \<Rightarrow> Inr (None, w)
     | Some p \<Rightarrow>
         let w0 = w\<lparr>heap := (heap w)(p := zero_transport), live := insert p (live w)\<rparr>;
             w1 = emit [Ev_device_ref dv, Ev_ref_count_store p 1]
                    (upd p (\<lambda>t. t\<lparr>t_d := dv,
                                  ttype := (ttype t)\<lparr>profile := BA_TRANSPORT_PROFILE_NONE\<rparr>,
                                  ref_count := 1, bt_fd := -1\<rparr>) w0);
             (e1, w2) = transport_thread_init env p THREAD_ENC w1;
             (e2, w3) = transport_thread_init env p THREAD_DEC w2;
             fail = (\<lambda>w. case ba_transport_unref p w of
                            Inl e \<Rightarrow> Inl e
                          | Inr w' \<Rightarrow> Inr (None, w'))
         in if e1 \<noteq> 0 \<or> e2 \<noteq> 0 then fail w3
            else if \<not> e_strdup env dbus_owner then fail w3
            else
              let w4 = upd p (\<lambda>t. t\<lparr>bluez_dbus_owner := Some dbus_owner\<rparr>) w3
              in if \<not> e_strdup env dbus_path then fail w4
                 else
                   let w5 = upd p (\<lambda>t. t\<lparr>bluez_dbus_path := Some dbus_path\<rparr>) w4;
                       dev = devices w5 dv;
                       w6 = w5\<lparr>devices := (devices w5)
                                 (dv := dev\<lparr>transports := (transports dev)(dbus_path \<mapsto> p)\<rparr>)\<rparr>
                   in Inr (Some p,
                           emit [Ev_mutex_lock (Transports_mutex dv),
                                 Ev_hash_table_insert dv dbus_path p,
                                 Ev_mutex_unlock (Transports_mutex dv)] w6))"

subsection \<open>Codec-to-PCM mapping\<close>

text \<open>\<^verbatim>\<open>ba_transport_set_codec_sco\<close> (lines 660-685).\<close>

definition ba_transport_set_codec_sco :: "tref \<Rightarrow> world \<Rightarrow> world" where
  "ba_transport_set_codec_sco p w =
    (let w1 = upd p (\<lambda>t. t\<lparr>
                sco_spk_pcm := (sco_spk_pcm t)\<lparr>pcm_format := BA_TRANSPORT_PCM_FORMAT_S16_2LE,
                                               pcm_channels := 1\<rparr>,
                sco_mic_pcm := (sco_mic_pcm t)\<lparr>pcm_format := BA_TRANSPORT_PCM_FORMAT_S16_2LE,
                                               pcm_channels := 1\<rparr>\<rparr>) w;
         c = codec (ttype (heap w1 p));
         rate = (\<lambda>n w. upd p (\<lambda>t. t\<lparr>sco_spk_pcm := (sco_spk_pcm t)\<lparr>pcm_sampling := n\<rparr>,
                                     sco_mic_pcm := (sco_mic_pcm t)\<lparr>pcm_sampling := n\<rparr>\<rparr>) w)
     in if c = HFP_CODEC_CVSD then rate 8000 w1
        else if c = HFP_CODEC_MSBC then rate 16000 w1
        else rate 0 w1)"

text \<open>\<^verbatim>\<open>ba_transport_set_codec\<close> (lines 687-699).\<close>

definition ba_transport_set_codec :: "env \<Rightarrow> tref \<Rightarrow> 16 word \<Rightarrow> world \<Rightarrow> error + world" where
  "ba_transport_set_codec env p codec_id w =
    (let w1 = upd p (\<lambda>t. t\<lparr>ttype := (ttype t)\<lparr>codec := codec_id\<rparr>\<rparr>) w;
         r2 = (if profile (ttype (heap w1 p)) \<in> BA_TRANSPORT_PROFILE_MASK_A2DP then
                 (case e_set_codec_a2dp env (heap w1 p) of
                    Inl e \<Rightarrow> Inl e
                  | Inr t' \<Rightarrow> Inr (upd p (\<lambda>t. t') w1))
               else Inr w1)
     in case r2 of
          Inl e \<Rightarrow> Inl e
        | Inr w2 \<Rightarrow>
            if profile (ttype (heap w2 p)) \<in> BA_TRANSPORT_PROFILE_MASK_SCO
            then Inr (ba_transport_set_codec_sco p w2) else Inr w2)"

text \<open>
  \<^verbatim>\<open>ba_transport_new_sco\<close> (lines 265-320). Without the build option
  \<^verbatim>\<open>ENABLE_MSBC\<close> the codec is CVSD whatever the caller asked for.
\<close>

definition ba_transport_new_sco ::
  "env \<Rightarrow> dref \<Rightarrow> ba_transport_type \<Rightarrow> string \<Rightarrow> string \<Rightarrow> int \<Rightarrow> world
   \<Rightarrow> error + tref option \<times> world" where
  "ba_transport_new_sco env dv ty dbus_owner dbus_path rfcomm_fd w =
    (case transport_new env dv dbus_owner dbus_path w of
       Inl e \<Rightarrow> Inl e
     | Inr (None, w1) \<Rightarrow> Inr (None, w1)
     | Inr (Some p, w1) \<Rightarrow>
         let ty1 = (if profile ty \<in> BA_TRANSPORT_PROFILE_MASK_HSP
                    then ty\<lparr>codec := HFP_CODEC_CVSD\<rparr> else ty);
             ty2 = (if ENABLE_MSBC env then
                      (if \<not> a_esco_support (devices w1 dv)
                       then ty1\<lparr>codec := HFP_CODEC_CVSD\<rparr> else ty1)
                    else ty1\<lparr>codec := HFP_CODEC_CVSD\<rparr>);
             w2 = upd p (\<lambda>t. t\<lparr>ttype := ty2\<rparr>) w1;
             w3 = upd p (pcm_upd SCO_SPK_PCM (\<lambda>x. x\<lparr>pcm_max_bt_volume := 15\<rparr>))
                    (transport_pcm_init p SCO_SPK_PCM THREAD_ENC BA_TRANSPORT_PCM_MODE_SINK w2);
             w4 = upd p (pcm_upd SCO_MIC_PCM (\<lambda>x. x\<lparr>pcm_max_bt_volume := 15\<rparr>))
                    (transport_pcm_init p SCO_MIC_PCM THREAD_ENC BA_TRANSPORT_PCM_MODE_SOURCE w3);
             w5 = upd p (\<lambda>t. t\<lparr>acquire := Some FN_transport_acquire_bt_sco,
                               release := Some FN_transport_release_bt_sco\<rparr>) w4;
             finish = (\<lambda>w. case ba_transport_set_codec env p (codec ty2) w of
                              Inl e \<Rightarrow> Inl e
                            | Inr w' \<Rightarrow>
                                Inr (Some p, emit [Ev_dbus_pcm_register p SCO_SPK_PCM,
                                                   Ev_dbus_pcm_register p SCO_MIC_PCM] w'))
         in if rfcomm_fd \<noteq> -1 then
              (case e_ba_rfcomm_new env rfcomm_fd of
                 None \<Rightarrow>
                   (case ba_transport_unref p (emit [Ev_rfcomm_new p rfcomm_fd] w5) of
                      Inl e \<Rightarrow> Inl e
                    | Inr w' \<Rightarrow> Inr (None, w'))
               | Some r \<Rightarrow>
                   finish (upd p (\<lambda>t. t\<lparr>sco_rfcomm := Some r\<rparr>)
                             (emit [Ev_rfcomm_new p rfcomm_fd] w5)))
            else finish w5)"

subsection \<open>Starting and stopping, and the A2DP state\<close>

text \<open>\<^verbatim>\<open>ba_transport_thread_create\<close> (lines 1080-1102).\<close>

definition ba_transport_thread_create ::
  "env \<Rightarrow> tref \<Rightarrow> th_sel \<Rightarrow> string \<Rightarrow> world \<Rightarrow> error + int \<times> world" where
  "ba_transport_thread_create env p th name w =
    (let w1 = ba_transport_ref p w
     in case e_pthread_create env p th of
          None \<Rightarrow>
            (case ba_transport_unref p
                    (upd p (thread_upd th (\<lambda>x. x\<lparr>th_id := config_main_thread env\<rparr>))
                       (emit [Ev_pthread_create p th name] w1)) of
               Inl e \<Rightarrow> Inl e
             | Inr w2 \<Rightarrow> Inr (-1, w2))
        | Some i \<Rightarrow>
            Inr (0, upd p (thread_upd th (\<lambda>x. x\<lparr>th_id := i\<rparr>))
                      (emit [Ev_pthread_create p th name] w1)))"

text \<open>\<^verbatim>\<open>ba_transport_start\<close> (lines 701-716).\<close>

definition ba_transport_start :: "env \<Rightarrow> tref \<Rightarrow> world \<Rightarrow> error + int \<times> world" where
  "ba_transport_start env p w =
    (let t = heap w p
     in if th_id (thread_enc t) \<noteq> config_main_thread env \<or>
           th_id (thread_dec t) \<noteq> config_main_thread env then Inr (0, w)
        else if profile (ttype t) \<in> BA_TRANSPORT_PROFILE_MASK_A2DP then
          e_a2dp_audio_thread_create env p w
        else if profile (ttype t) \<in> BA_TRANSPORT_PROFILE_MASK_SCO then
          ba_transport_thread_create env p THREAD_ENC ''ba-sco'' w
        else Inr (-1, w))"

text \<open>\<^verbatim>\<open>ba_transport_stop\<close> (lines 718-722).\<close>

definition ba_transport_stop :: "env \<Rightarrow> tref \<Rightarrow> world \<Rightarrow> error + int \<times> world" where
  "ba_transport_stop env p w =
    Inr (0, transport_thread_cancel env p THREAD_DEC (transport_thread_cancel env p THREAD_ENC w))"

text \<open>
  \<^verbatim>\<open>ba_transport_acquire\<close> (lines 724-726): a call through the function pointer.
\<close>

fun call_transport_fn :: "env \<Rightarrow> transport_fn \<Rightarrow> tref \<Rightarrow> world \<Rightarrow> int \<times> world" where
  "call_transport_fn env FN_transport_acquire_bt_a2dp p w = transport_acquire_bt_a2dp env p w"
| "call_transport_fn env FN_transport_release_bt_a2dp p w = transport_release_bt_a2dp env p w"
| "call_transport_fn env FN_transport_acquire_bt_sco p w = transport_acquire_bt_sco env p w"
| "call_transport_fn env FN_transport_release_bt_sco p w = transport_release_bt_sco env p w"

definition ba_transport_acquire :: "env \<Rightarrow> tref \<Rightarrow> world \<Rightarrow> error + int \<times> world" where
  "ba_transport_acquire env p w =
    (case acquire (heap w p) of
       None \<Rightarrow> Inl Null_dereference
     | Some f \<Rightarrow> Inr (call_transport_fn env f p w))"

text \<open>\<^verbatim>\<open>ba_transport_set_a2dp_state\<close> (lines 746-763).\<close>

definition ba_transport_set_a2dp_state ::
  "env \<Rightarrow> tref \<Rightarrow> bluez_a2dp_transport_state \<Rightarrow> world \<Rightarrow> error + int \<times> world" where
  "ba_transport_set_a2dp_state env p state w =
    (let w1 = upd p (\<lambda>t. t\<lparr>a2dp_state := state\<rparr>) w
     in case state of
          BLUEZ_A2DP_TRANSPORT_STATE_PENDING \<Rightarrow>
            if profile (ttype (heap w1 p)) = BA_TRANSPORT_PROFILE_A2DP_SINK
            then ba_transport_acquire env p w1
            else Inr (0, w1)
        | BLUEZ_A2DP_TRANSPORT_STATE_ACTIVE \<Rightarrow> ba_transport_start env p w1
        | BLUEZ_A2DP_TRANSPORT_STATE_IDLE \<Rightarrow> ba_transport_stop env p w1
        | BLUEZ_A2DP_TRANSPORT_STATE_OTHER n \<Rightarrow> ba_transport_stop env p w1)"

subsection \<open>Volume\<close>

text \<open>
  \<^verbatim>\<open>ba_transport_pcm_volume_level_to_bt\<close> (lines 774-779): the floating-point product,
  converted to \<^verbatim>\<open>int\<close>, comes from the environment; the clamping is the code's.
\<close>

definition ba_transport_pcm_volume_level_to_bt :: "env \<Rightarrow> ba_transport_pcm \<Rightarrow> int \<Rightarrow> nat" where
  "ba_transport_pcm_volume_level_to_bt env pcm v =
    (let volume = e_decibel_to_loudness_scaled env v (pcm_max_bt_volume pcm)
     in min (nat (max volume 0)) (pcm_max_bt_volume pcm))"

text \<open>
  Division of C integers truncates towards zero. The sum of two \<^verbatim>\<open>int\<close> values
  wraps around in 32 bits, as the compiled code does it (in C the overflow is
  undefined).
\<close>

definition c_int_add :: "int \<Rightarrow> int \<Rightarrow> int" where
  "c_int_add a b = sint (word_of_int (a + b) :: 32 word)"

definition c_div :: "int \<Rightarrow> int \<Rightarrow> int" where
  "c_div a b = (if (a < 0) = (b < 0) then \<bar>a\<bar> div \<bar>b\<bar> else - (\<bar>a\<bar> div \<bar>b\<bar>))"

text \<open>
  \<^verbatim>\<open>ba_transport_pcm_volume_update\<close> (lines 788-826). \<^verbatim>\<open>g_variant_new_uint16\<close> keeps
  the low 16 bits of the volume.
\<close>

definition ba_transport_pcm_volume_update :: "env \<Rightarrow> tref \<Rightarrow> pcm_sel \<Rightarrow> world \<Rightarrow> int \<times> world" where
  "ba_transport_pcm_volume_update env p pcm w =
    (let t = heap w p;
         x = pcm_of pcm t;
         w1 = (if pcm_soft_volume x \<and>
                  profile (ttype t) \<in>
                    insert BA_TRANSPORT_PROFILE_A2DP_SOURCE BA_TRANSPORT_PROFILE_MASK_AG
               then w
               else if profile (ttype t) \<in> BA_TRANSPORT_PROFILE_MASK_A2DP then
                 let lvl = (if \<not> muted (pcm_volume_0 x) \<and> \<not> muted (pcm_volume_1 x)
                            then c_div (c_int_add (level (pcm_volume_0 x))
                                                  (level (pcm_volume_1 x))) 2
                            else 0);
                     volume = ba_transport_pcm_volume_level_to_bt env x lvl
                 in emit [Ev_dbus_set_property (bluez_dbus_owner t) (bluez_dbus_path t)
                            ''Volume'' (volume mod 65536)] w
               else if profile (ttype t) \<in> BA_TRANSPORT_PROFILE_MASK_SCO then
                 (case sco_rfcomm t of
                    None \<Rightarrow> w
                  | Some r \<Rightarrow> emit [Ev_rfcomm_send_signal r BA_RFCOMM_SIGNAL_UPDATE_VOLUME] w)
               else w)
     in (0, emit [Ev_dbus_pcm_update p pcm] w1))"

subsection \<open>Example environments and worlds\<close>

text \<open>
  An environment in which every call succeeds: the daemon answers \<^verbatim>\<open>Acquire\<close> with
  handle index 1, MTUs 672 and 895 and the descriptors 7 and 9.
\<close>

definition env_ok :: env where
  "env_ok = \<lparr>ENABLE_MSBC = True, config_main_thread = 0, config_a2dp_volume = False,
     e_pthread_self = 0,
     e_dbus_send = (\<lambda>path method. Reply_method_return
        \<lparr>body_handle = 1, body_mtu_read = 672, body_mtu_write = 895, body_fd_list = [7, 9]\<rparr>),
     e_ioctl_TIOCOUTQ = (\<lambda>fd. Some 0),
     e_hci_sco_open = (\<lambda>dev. 11),
     e_hci_sco_connect = (\<lambda>fd addr voice. 0),
     e_hci_sco_get_mtu = (\<lambda>fd. 48),
     e_write = (\<lambda>fd sig. 4),
     e_pthread_create = (\<lambda>p th. Some 21),
     e_calloc = Some 1,
     e_pipe = (\<lambda>th. case th of THREAD_ENC \<Rightarrow> Some (3, 4) | THREAD_DEC \<Rightarrow> Some (5, 6)),
     e_strdup = (\<lambda>s. True),
     e_ba_rfcomm_new = (\<lambda>fd. Some 31),
     e_decibel_to_loudness_scaled = (\<lambda>v m. 0),
     e_a2dp_audio_thread_create = (\<lambda>p w. Inr (0, w)),
     e_set_codec_a2dp = (\<lambda>t. Inr t)\<rparr>"

text \<open>
  An environment in which the daemon answers every call with an error that is none of
  the three soft ones, and in which \<^verbatim>\<open>write\<close> fails.
\<close>

definition env_fail :: env where
  "env_fail = env_ok\<lparr>e_dbus_send := (\<lambda>path method. Reply_error (G_DBUS_ERROR_OTHER 0)),
                     e_write := (\<lambda>fd sig. -1)\<rparr>"

text \<open>A build without mSBC.\<close>

definition env_no_msbc :: env where
  "env_no_msbc = env_ok\<lparr>ENABLE_MSBC := False\<rparr>"

definition dev_ex :: ba_device where
  "dev_ex = \<lparr>transports = [''/path'' \<mapsto> 0], d_ba_dbus_path = ''/org/bluealsa/hci0/dev'',
     d_addr = 0, a_hci_dev_id = 0, a_esco_support = True\<rparr>"

definition pcm_ex :: ba_transport_pcm where
  "pcm_ex = zero_pcm\<lparr>pcm_th := Some THREAD_DEC, pcm_mode := BA_TRANSPORT_PCM_MODE_SOURCE,
     pcm_fd := -1, pcm_format := BA_TRANSPORT_PCM_FORMAT_S16_2LE, pcm_channels := 2,
     pcm_sampling := 44100, pcm_max_bt_volume := 127,
     pcm_ba_dbus_path := Some ''/org/bluealsa/hci0/dev/a2dpsnk/source''\<rparr>"

text \<open>
  An A2DP sink transport, acquired (descriptor 5), in state ACTIVE, with one reference
  and no worker thread.
\<close>

definition t_a2dp :: ba_transport where
  "t_a2dp = zero_transport\<lparr>
     ttype := \<lparr>profile = BA_TRANSPORT_PROFILE_A2DP_SINK, codec = 0\<rparr>,
     ref_count := 1, bt_fd := 5,
     bluez_dbus_owner := Some '':1.5'', bluez_dbus_path := Some ''/path'',
     thread_enc := \<lparr>th_id = 0, th_running = False, th_pipe_rd = 3, th_pipe_wr = 4\<rparr>,
     thread_dec := \<lparr>th_id = 0, th_running = False, th_pipe_rd = 5, th_pipe_wr = 6\<rparr>,
     acquire := Some FN_transport_acquire_bt_a2dp,
     release := Some FN_transport_release_bt_a2dp,
     a2dp_state := BLUEZ_A2DP_TRANSPORT_STATE_ACTIVE,
     a2dp_configuration := Some [],
     a2dp_pcm := pcm_ex,
     a2dp_pcm_bc := pcm_ex\<lparr>pcm_th := Some THREAD_ENC, pcm_mode := BA_TRANSPORT_PCM_MODE_SINK,
                            pcm_channels := 0, pcm_sampling := 0,
                            pcm_ba_dbus_path := Some ''/org/bluealsa/hci0/dev/a2dpsnk/sink''\<rparr>\<rparr>"

definition w_a2dp :: world where
  "w_a2dp = \<lparr>heap = (\<lambda>p. t_a2dp), live = {0},
     devices = (\<lambda>d. dev_ex\<lparr>transports := Map.empty\<rparr>)(0 := dev_ex), trace = []\<rparr>"

text \<open>The same transport before it is acquired.\<close>

definition w_a2dp_closed :: world where
  "w_a2dp_closed = upd 0 (\<lambda>t. t\<lparr>bt_fd := -1\<rparr>) w_a2dp"

text \<open>An SCO transport of the profile HFP-AG with the codec mSBC, acquired.\<close>

definition t_sco :: ba_transport where
  "t_sco = zero_transport\<lparr>
     ttype := \<lparr>profile = BA_TRANSPORT_PROFILE_HFP_AG, codec = HFP_CODEC_MSBC\<rparr>,
     ref_count := 1, bt_fd := 5,
     bluez_dbus_owner := Some '':1.5'', bluez_dbus_path := Some ''/path'',
     thread_enc := \<lparr>th_id = 0, th_running = False, th_pipe_rd = 3, th_pipe_wr = 4\<rparr>,
     thread_dec := \<lparr>th_id = 0, th_running = False, th_pipe_rd = 5, th_pipe_wr = 6\<rparr>,
     acquire := Some FN_transport_acquire_bt_sco,
     release := Some FN_transport_release_bt_sco,
     sco_spk_pcm := pcm_ex\<lparr>pcm_th := Some THREAD_ENC, pcm_mode := BA_TRANSPORT_PCM_MODE_SINK,
                            pcm_channels := 1, pcm_sampling := 16000, pcm_max_bt_volume := 15,
                            pcm_ba_dbus_path := Some ''/org/bluealsa/hci0/dev/hfpag/sink''\<rparr>,
     sco_mic_pcm := pcm_ex\<lparr>pcm_th := Some THREAD_ENC,
                            pcm_channels := 1, pcm_sampling := 16000, pcm_max_bt_volume := 15,
                            pcm_ba_dbus_path := Some ''/org/bluealsa/hci0/dev/hfpag/source''\<rparr>\<rparr>"

definition w_sco :: world where
  "w_sco = \<lparr>heap = (\<lambda>p. t_sco), live = {0},
     devices = (\<lambda>d. dev_ex\<lparr>transports := Map.empty\<rparr>)(0 := dev_ex), trace = []\<rparr>"

subsection \<open>Reading the trace and the replies\<close>

text \<open>The calls made between a world and a later one.\<close>

definition new_events :: "world \<Rightarrow> world \<Rightarrow> event list" where
  "new_events w w' = drop (length (trace w)) (trace w')"

text \<open>
  The replies to \<^verbatim>\<open>Release\<close> that the release strategy reports as a failure: no reply
  object, or an error other than no-reply, service-unknown and unknown-object.
\<close>

fun release_rpc_failed :: "dbus_reply \<Rightarrow> bool" where
  "release_rpc_failed Reply_none = True"
| "release_rpc_failed (Reply_error code) =
     (code \<noteq> G_DBUS_ERROR_NO_REPLY \<and> code \<noteq> G_DBUS_ERROR_SERVICE_UNKNOWN \<and>
      code \<noteq> G_DBUS_ERROR_UNKNOWN_OBJECT)"
| "release_rpc_failed (Reply_method_return body) = False"

text \<open>The body of the reply that \<open>env_ok\<close> gives.\<close>

definition reply_ex :: dbus_body where
  "reply_ex = \<lparr>body_handle = 1, body_mtu_read = 672, body_mtu_write = 895, body_fd_list = [7, 9]\<rparr>"

text \<open>
  The calls of \<open>transport_pcm_free\<close> on an endpoint and of \<open>transport_thread_free\<close> on a
  thread handle, as lists.
\<close>

definition pcm_free_events :: "tref \<Rightarrow> pcm_sel \<Rightarrow> ba_transport_pcm \<Rightarrow> event list" where
  "pcm_free_events p pcm x =
     [Ev_mutex_lock (Pcm_mutex p pcm)] @
     (if pcm_fd x \<noteq> -1 then [Ev_close (pcm_fd x)] else []) @
     [Ev_mutex_unlock (Pcm_mutex p pcm), Ev_mutex_destroy (Pcm_mutex p pcm),
      Ev_mutex_destroy (Pcm_synced_mtx p pcm), Ev_cond_destroy (Pcm_synced p pcm)] @
     (if pcm_ba_dbus_path x \<noteq> None then [Ev_free (Mem_pcm_ba_dbus_path p pcm)] else [])"

definition thread_free_events :: "tref \<Rightarrow> th_sel \<Rightarrow> ba_transport_thread \<Rightarrow> event list" where
  "thread_free_events p th x =
     (if th_pipe_rd x \<noteq> -1 then [Ev_close (th_pipe_rd x)] else []) @
     (if th_pipe_wr x \<noteq> -1 then [Ev_close (th_pipe_wr x)] else []) @
     [Ev_mutex_destroy (Th_ready_mtx p th), Ev_cond_destroy (Th_ready p th)]"

text \<open>
  The calls of \<open>ba_transport_unref\<close> that release what the profile owns: for A2DP the
  two endpoints and the configuration blob, for SCO the RFCOMM session and the two
  endpoints.
\<close>

definition profile_free_events :: "tref \<Rightarrow> ba_transport \<Rightarrow> event list" where
  "profile_free_events p t =
     (if profile (ttype t) \<in> BA_TRANSPORT_PROFILE_MASK_A2DP then
        pcm_free_events p A2DP_PCM (a2dp_pcm t) @
        pcm_free_events p A2DP_PCM_BC (a2dp_pcm_bc t) @
        [Ev_free (Mem_a2dp_configuration p)]
      else if profile (ttype t) \<in> BA_TRANSPORT_PROFILE_MASK_SCO then
        (case sco_rfcomm t of None \<Rightarrow> [] | Some r \<Rightarrow> [Ev_rfcomm_destroy r]) @
        pcm_free_events p SCO_SPK_PCM (sco_spk_pcm t) @
        pcm_free_events p SCO_MIC_PCM (sco_mic_pcm t)
      else [])"

text \<open>
  In a list of calls, \<open>a\<close> comes before \<open>b\<close>: both occur, and the first \<open>a\<close> is earlier
  than the first \<open>b\<close>.
\<close>

fun occurs_before :: "'a \<Rightarrow> 'a \<Rightarrow> 'a list \<Rightarrow> bool" where
  "occurs_before a b [] = False"
| "occurs_before a b (x # xs) =
     (if x = b then False else if x = a then b \<in> set xs else occurs_before a b xs)"

text \<open>
  The tables name a transport only under its own RPC path, and only in the table of
  its own device: \<open>transport_new\<close> is the one place that inserts.
\<close>

definition table_keys_are_paths :: "world \<Rightarrow> tref \<Rightarrow> bool" where
  "table_keys_are_paths w p =
     (\<forall>dv k. transports (devices w dv) k = Some p \<longrightarrow>
        dv = t_d (heap w p) \<and> bluez_dbus_path (heap w p) = Some k)"

text \<open>The A2DP transport with a second reference.\<close>

definition w_a2dp_two_refs :: world where
  "w_a2dp_two_refs = upd 0 (\<lambda>t. t\<lparr>ref_count := 2\<rparr>) w_a2dp"

text \<open>
  The stores to the reference count of one transport, and the stores of the value zero.
\<close>

fun is_ref_count_store :: "tref \<Rightarrow> event \<Rightarrow> bool" where
  "is_ref_count_store p (Ev_ref_count_store q n) = (q = p)"
| "is_ref_count_store p ev = False"

text \<open>
  A transport that is freed and that no table names is unreachable.

  What the holders of references do with the transports of a world, one call after the
  other: look a path up in a device, take another reference to a transport, drop a
  reference. A holder's transport is live; a call on a freed transport is the caller's
  fault and ends the run. No transport is created during the run, so no address is
  handed out again.
\<close>

definition unreachable :: "tref \<Rightarrow> world \<Rightarrow> bool" where
  "unreachable p w = (p \<notin> live w \<and> (\<forall>dv k. transports (devices w dv) k \<noteq> Some p))"

datatype client_op = Op_lookup dref string | Op_ref tref | Op_unref tref

fun run :: "client_op list \<Rightarrow> world \<Rightarrow> error + world" where
  "run [] w = Inr w"
| "run (Op_lookup dv k # ops) w = run ops (snd (ba_transport_lookup dv k w))"
| "run (Op_ref q # ops) w =
     (if q \<in> live w then run ops (ba_transport_ref q w) else Inl Use_after_free)"
| "run (Op_unref q # ops) w =
     (if q \<in> live w then
        (case ba_transport_unref q w of Inl e \<Rightarrow> Inl e | Inr w' \<Rightarrow> run ops w')
      else Inl Use_after_free)"

text \<open>An SCO transport whose codec is none of the three identifiers.\<close>

definition w_sco_unknown :: world where
  "w_sco_unknown = upd 0 (\<lambda>t. t\<lparr>ttype := (ttype t)\<lparr>codec := 153\<rparr>\<rparr>) w_sco"

text \<open>
  An A2DP source transport with software volume whose primary endpoint has its first
  channel muted, and the sink transport, without software volume, whose primary
  endpoint has its first channel muted.
\<close>

definition w_a2dp_source_muted :: world where
  "w_a2dp_source_muted =
     upd 0 (\<lambda>t. t\<lparr>ttype := (ttype t)\<lparr>profile := BA_TRANSPORT_PROFILE_A2DP_SOURCE\<rparr>,
                   a2dp_pcm := (a2dp_pcm t)\<lparr>pcm_soft_volume := True,
                                             pcm_volume_0 := \<lparr>level = -1200, muted = True\<rparr>\<rparr>\<rparr>)
       w_a2dp"

definition w_a2dp_sink_muted :: world where
  "w_a2dp_sink_muted =
     upd 0 (\<lambda>t. t\<lparr>a2dp_pcm := (a2dp_pcm t)\<lparr>pcm_volume_0 := \<lparr>level = -1200, muted = True\<rparr>,
                                             pcm_volume_1 := \<lparr>level = -1200, muted = False\<rparr>\<rparr>\<rparr>)
       w_a2dp"

text \<open>The sink transport with no channel muted and both at the lowest level, -96 dB.\<close>

definition w_a2dp_sink_quiet :: world where
  "w_a2dp_sink_quiet =
     upd 0 (\<lambda>t. t\<lparr>a2dp_pcm := (a2dp_pcm t)\<lparr>pcm_volume_0 := \<lparr>level = -9600, muted = False\<rparr>,
                                             pcm_volume_1 := \<lparr>level = -9600, muted = False\<rparr>\<rparr>\<rparr>)
       w_a2dp"

text \<open>
  The A2DP transport before it is acquired, with MTU members that hold the value 65536
  from before.
\<close>

definition w_a2dp_wide :: world where
  "w_a2dp_wide = upd 0 (\<lambda>t. t\<lparr>bt_fd := -1, mtu_read := 65536, mtu_write := 65536\<rparr>) w_a2dp"

text \<open>
  An environment with a loudness curve that rises with the level: the loudness is 1 at
  0 dB and halves with every full 10 dB below, so that the scaled product is the
  maximum volume at the level 0 and is 0 at -96 dB for the maxima 127 and 15.
\<close>

definition env_unity :: env where
  "env_unity = env_ok\<lparr>e_decibel_to_loudness_scaled :=
     (\<lambda>v m. if 0 \<le> v then int m * 2 ^ nat (v div 1000)
            else int m div 2 ^ nat ((- v) div 1000))\<rparr>"

section \<open>Properties\<close>

lemmas ex_defs = env_ok_def env_fail_def env_no_msbc_def env_unity_def dev_ex_def pcm_ex_def
  t_a2dp_def w_a2dp_def w_a2dp_closed_def t_sco_def w_sco_def w_sco_unknown_def
  w_a2dp_source_muted_def w_a2dp_sink_muted_def w_a2dp_sink_quiet_def w_a2dp_wide_def
  w_a2dp_two_refs_def zero_transport_def
  zero_pcm_def zero_thread_def upd_def emit_def

lemmas mask_defs = BA_TRANSPORT_PROFILE_MASK_A2DP_def BA_TRANSPORT_PROFILE_MASK_SCO_def
  BA_TRANSPORT_PROFILE_MASK_HFP_def BA_TRANSPORT_PROFILE_MASK_HSP_def
  BA_TRANSPORT_PROFILE_MASK_AG_def

lemmas codec_defs = HFP_CODEC_UNDEFINED_def HFP_CODEC_CVSD_def HFP_CODEC_MSBC_def

subsection \<open>The world after an update and after a call\<close>

lemma emit_proj [simp]:
  "heap (emit evs w) = heap w" "devices (emit evs w) = devices w"
  "live (emit evs w) = live w" "trace (emit evs w) = trace w @ evs"
  by (simp_all add: emit_def)

lemma upd_proj [simp]:
  "heap (upd p f w) = (heap w)(p := f (heap w p))" "devices (upd p f w) = devices w"
  "live (upd p f w) = live w" "trace (upd p f w) = trace w"
  by (simp_all add: upd_def)

lemma new_events_emit [simp]: "new_events w (emit evs w) = evs"
  by (simp add: new_events_def)

subsection \<open>Release\<close>

lemma release_sco_idle:
  "bt_fd (heap w p) = -1 \<Longrightarrow>
   transport_release_bt_sco env p w =
     (0, emit [Ev_mutex_lock (Bt_fd_mtx p), Ev_mutex_unlock (Bt_fd_mtx p)] w)"
  by (simp add: transport_release_bt_sco_def Let_def)

lemma release_a2dp_idle:
  "bt_fd (heap w p) = -1 \<Longrightarrow>
   transport_release_bt_a2dp env p w =
     (0, emit [Ev_mutex_lock (Bt_fd_mtx p), Ev_mutex_unlock (Bt_fd_mtx p)] w)"
  by (simp add: transport_release_bt_a2dp_def Let_def)

lemma release_sco_result:
  "fst (transport_release_bt_sco env p w) = 0 \<and>
   bt_fd (heap (snd (transport_release_bt_sco env p w)) p) = -1"
  by (simp add: transport_release_bt_sco_def Let_def)

lemma release_a2dp_result:
  "(fst (transport_release_bt_a2dp env p w) = 0 \<and>
    bt_fd (heap (snd (transport_release_bt_a2dp env p w)) p) = -1 \<and>
    \<not> (bt_fd (heap w p) \<noteq> -1 \<and>
       a2dp_state (heap w p) \<noteq> BLUEZ_A2DP_TRANSPORT_STATE_IDLE \<and>
       bluez_dbus_owner (heap w p) \<noteq> None \<and>
       release_rpc_failed (e_dbus_send env (bluez_dbus_path (heap w p)) ''Release''))) \<or>
   (fst (transport_release_bt_a2dp env p w) = -1 \<and>
    heap (snd (transport_release_bt_a2dp env p w)) = heap w \<and>
    bt_fd (heap w p) \<noteq> -1 \<and>
    a2dp_state (heap w p) \<noteq> BLUEZ_A2DP_TRANSPORT_STATE_IDLE \<and>
    bluez_dbus_owner (heap w p) \<noteq> None \<and>
    release_rpc_failed (e_dbus_send env (bluez_dbus_path (heap w p)) ''Release''))"
  by (cases "e_dbus_send env (bluez_dbus_path (heap w p)) ''Release''")
     (simp_all add: transport_release_bt_a2dp_def Let_def)

text \<open>
  Claim C1, as the code has it. The SCO release always returns 0 and leaves
  \<open>bt_fd = -1\<close>, and a second release is then a no-op that returns 0. The A2DP release
  returns 0 or \<open>-1\<close>; when it returns 0 it leaves \<open>bt_fd = -1\<close> and a second release is a
  no-op that returns 0; it returns \<open>-1\<close>, leaving the transport as it was, exactly when
  the transport is acquired, its state is not IDLE, it has an RPC owner, and the
  \<^verbatim>\<open>Release\<close> call gets no reply or an error that is not one of the three soft ones.
\<close>

theorem release_closes_on_success:
  "(let (r, w') = transport_release_bt_sco env p w in
      r = 0 \<and> bt_fd (heap w' p) = -1 \<and>
      transport_release_bt_sco env2 p w' =
        (0, emit [Ev_mutex_lock (Bt_fd_mtx p), Ev_mutex_unlock (Bt_fd_mtx p)] w')) \<and>
   (let (r, w') = transport_release_bt_a2dp env p w in
      (r = 0 \<or> r = -1) \<and>
      (r = 0 \<longrightarrow> bt_fd (heap w' p) = -1 \<and>
         transport_release_bt_a2dp env2 p w' =
           (0, emit [Ev_mutex_lock (Bt_fd_mtx p), Ev_mutex_unlock (Bt_fd_mtx p)] w')) \<and>
      (r = -1 \<longrightarrow> heap w' = heap w) \<and>
      (r = -1 \<longleftrightarrow>
         bt_fd (heap w p) \<noteq> -1 \<and>
         a2dp_state (heap w p) \<noteq> BLUEZ_A2DP_TRANSPORT_STATE_IDLE \<and>
         bluez_dbus_owner (heap w p) \<noteq> None \<and>
         release_rpc_failed (e_dbus_send env (bluez_dbus_path (heap w p)) ''Release'')))"
proof -
  obtain r1 w1 where s: "transport_release_bt_sco env p w = (r1, w1)" by (cases "transport_release_bt_sco env p w")
  obtain r2 w2 where a: "transport_release_bt_a2dp env p w = (r2, w2)" by (cases "transport_release_bt_a2dp env p w")
  from release_sco_result [of env p w] s have s1: "r1 = 0" "bt_fd (heap w1 p) = -1" by simp_all
  note s2 = release_sco_idle [OF s1(2), of env2]
  from release_a2dp_result [of env p w] a
  have a1: "(r2 = 0 \<and> bt_fd (heap w2 p) = -1 \<and>
    \<not> (bt_fd (heap w p) \<noteq> -1 \<and>
       a2dp_state (heap w p) \<noteq> BLUEZ_A2DP_TRANSPORT_STATE_IDLE \<and>
       bluez_dbus_owner (heap w p) \<noteq> None \<and>
       release_rpc_failed (e_dbus_send env (bluez_dbus_path (heap w p)) ''Release''))) \<or>
   (r2 = -1 \<and> heap w2 = heap w \<and>
    bt_fd (heap w p) \<noteq> -1 \<and>
    a2dp_state (heap w p) \<noteq> BLUEZ_A2DP_TRANSPORT_STATE_IDLE \<and>
    bluez_dbus_owner (heap w p) \<noteq> None \<and>
    release_rpc_failed (e_dbus_send env (bluez_dbus_path (heap w p)) ''Release''))"
    by simp
  have a2: "transport_release_bt_a2dp env2 p w2 =
           (0, emit [Ev_mutex_lock (Bt_fd_mtx p), Ev_mutex_unlock (Bt_fd_mtx p)] w2)"
    if "r2 = 0"
    using a1 that by (intro release_a2dp_idle) auto
  show ?thesis
    unfolding s a prod.case Let_def using s1 s2 a1 a2 by auto
qed

theorem release_closes_on_success_witness:
  "fst (transport_release_bt_a2dp env_ok 0 w_a2dp) = 0 \<and>
   bt_fd (heap w_a2dp 0) = 5 \<and>
   bt_fd (heap (snd (transport_release_bt_a2dp env_ok 0 w_a2dp)) 0) = -1 \<and>
   fst (transport_release_bt_a2dp env_fail 0 (snd (transport_release_bt_a2dp env_ok 0 w_a2dp))) = 0"
  using release_closes_on_success [of env_ok 0 w_a2dp env_fail]
  by (simp add: transport_release_bt_a2dp_def ex_defs)

text \<open>
  Claim C1 as stated fails: an acquired A2DP transport in state ACTIVE whose
  \<^verbatim>\<open>Release\<close> call is answered with a hard error keeps its descriptor 5, and the
  release returns \<open>-1\<close>.
\<close>

theorem release_a2dp_rpc_failure_keeps_bt_fd:
  "fst (transport_release_bt_a2dp env_fail 0 w_a2dp) = -1 \<and>
   bt_fd (heap (snd (transport_release_bt_a2dp env_fail 0 w_a2dp)) 0) = 5 \<and>
   bt_fd (heap (snd (transport_release_bt_a2dp env_fail 0 w_a2dp)) 0) \<noteq> -1"
  by (simp add: transport_release_bt_a2dp_def ex_defs)

subsection \<open>Acquire\<close>

lemma acquire_a2dp_keep:
  "bt_fd (heap w p) \<noteq> -1 \<Longrightarrow>
   transport_acquire_bt_a2dp env p w =
     (bt_fd (heap w p), emit [Ev_mutex_lock (Bt_fd_mtx p), Ev_mutex_unlock (Bt_fd_mtx p)] w)"
  by (simp add: transport_acquire_bt_a2dp_def Let_def)

lemma acquire_sco_keep:
  "bt_fd (heap w p) \<noteq> -1 \<Longrightarrow>
   transport_acquire_bt_sco env p w =
     (bt_fd (heap w p), emit [Ev_mutex_lock (Bt_fd_mtx p), Ev_mutex_unlock (Bt_fd_mtx p)] w)"
  by (simp add: transport_acquire_bt_sco_def Let_def)

lemma acquire_a2dp_bt_fd:
  "fst (transport_acquire_bt_a2dp env p w) = bt_fd (heap (snd (transport_acquire_bt_a2dp env p w)) p)"
  by (cases "e_dbus_send env (bluez_dbus_path (heap w p))
        (if a2dp_state (heap w p) = BLUEZ_A2DP_TRANSPORT_STATE_PENDING
         then ''TryAcquire'' else ''Acquire'')")
     (simp_all add: transport_acquire_bt_a2dp_def Let_def)

lemma acquire_sco_bt_fd:
  "fst (transport_acquire_bt_sco env p w) = bt_fd (heap (snd (transport_acquire_bt_sco env p w)) p)"
  by (simp add: transport_acquire_bt_sco_def Let_def)

text \<open>
  Claim C2. On a transport with \<open>bt_fd \<noteq> -1\<close> both acquire strategies return that
  descriptor; they take and drop the bt-fd lock and do nothing else: the transport
  (so \<open>bt_fd\<close>, \<open>mtu_read\<close>, \<open>mtu_write\<close>) is unchanged and no call is an RPC or a socket
  operation. An acquire that returned a descriptor is followed by an acquire that
  returns the same one in this way.
\<close>

theorem acquire_keep_alive:
  "(bt_fd (heap w p) \<noteq> -1 \<longrightarrow>
      transport_acquire_bt_a2dp env p w =
        (bt_fd (heap w p), emit [Ev_mutex_lock (Bt_fd_mtx p), Ev_mutex_unlock (Bt_fd_mtx p)] w) \<and>
      transport_acquire_bt_sco env p w =
        (bt_fd (heap w p), emit [Ev_mutex_lock (Bt_fd_mtx p), Ev_mutex_unlock (Bt_fd_mtx p)] w) \<and>
      heap (emit [Ev_mutex_lock (Bt_fd_mtx p), Ev_mutex_unlock (Bt_fd_mtx p)] w) = heap w \<and>
      filter (\<lambda>e. is_rpc e \<or> is_socket_op e)
        (new_events w (emit [Ev_mutex_lock (Bt_fd_mtx p), Ev_mutex_unlock (Bt_fd_mtx p)] w)) = []) \<and>
   (\<forall>r w1. transport_acquire_bt_a2dp env p w = (r, w1) \<and> r \<noteq> -1 \<longrightarrow>
      transport_acquire_bt_a2dp env2 p w1 =
        (r, emit [Ev_mutex_lock (Bt_fd_mtx p), Ev_mutex_unlock (Bt_fd_mtx p)] w1)) \<and>
   (\<forall>r w1. transport_acquire_bt_sco env p w = (r, w1) \<and> r \<noteq> -1 \<longrightarrow>
      transport_acquire_bt_sco env2 p w1 =
        (r, emit [Ev_mutex_lock (Bt_fd_mtx p), Ev_mutex_unlock (Bt_fd_mtx p)] w1))"
proof (intro conjI impI allI)
  fix r w1
  assume "transport_acquire_bt_a2dp env p w = (r, w1) \<and> r \<noteq> - 1"
  with acquire_a2dp_bt_fd [of env p w] have "bt_fd (heap w1 p) = r" "bt_fd (heap w1 p) \<noteq> -1"
    by auto
  with acquire_a2dp_keep [of w1 p env2]
  show "transport_acquire_bt_a2dp env2 p w1 =
        (r, emit [Ev_mutex_lock (Bt_fd_mtx p), Ev_mutex_unlock (Bt_fd_mtx p)] w1)" by simp
next
  fix r w1
  assume "transport_acquire_bt_sco env p w = (r, w1) \<and> r \<noteq> - 1"
  with acquire_sco_bt_fd [of env p w] have "bt_fd (heap w1 p) = r" "bt_fd (heap w1 p) \<noteq> -1"
    by auto
  with acquire_sco_keep [of w1 p env2]
  show "transport_acquire_bt_sco env2 p w1 =
        (r, emit [Ev_mutex_lock (Bt_fd_mtx p), Ev_mutex_unlock (Bt_fd_mtx p)] w1)" by simp
qed (simp_all add: acquire_a2dp_keep acquire_sco_keep)

theorem acquire_keep_alive_witness:
  "bt_fd (heap w_a2dp 0) \<noteq> -1 \<and>
   transport_acquire_bt_a2dp env_fail 0 w_a2dp =
     (5, w_a2dp\<lparr>trace := [Ev_mutex_lock (Bt_fd_mtx 0), Ev_mutex_unlock (Bt_fd_mtx 0)]\<rparr>) \<and>
   fst (transport_acquire_bt_sco env_ok 0 w_sco) = 5 \<and>
   fst (transport_acquire_bt_a2dp env_ok 0 w_a2dp_closed) = 7 \<and>
   fst (transport_acquire_bt_a2dp env_fail 0 (snd (transport_acquire_bt_a2dp env_ok 0 w_a2dp_closed))) = 7"
  using acquire_keep_alive [of w_a2dp 0 env_fail env_fail]
    acquire_keep_alive [of w_sco 0 env_ok env_ok]
    acquire_keep_alive [of w_a2dp_closed 0 env_ok env_fail]
  by (simp add: transport_acquire_bt_a2dp_def g_unix_fd_list_get_def store_uint16_def ex_defs)

text \<open>
  Claim C3, as the code has it. On an A2DP transport with \<open>bt_fd = -1\<close> acquire makes
  exactly one RPC, \<^verbatim>\<open>TryAcquire\<close> when the state is PENDING and \<^verbatim>\<open>Acquire\<close>
  otherwise. When the reply is a method return, its two MTUs are stored into the low 16
  bits of the transport's MTU members, which are then the reply's values if the members
  were below 65536 before, and \<open>bt_fd\<close> becomes the descriptor at index 0 of the
  attached list (\<open>-1\<close> if the list is empty), whatever the reply's handle index is; that
  descriptor is returned. When there is no reply or an error reply, acquire returns
  \<open>-1\<close> and the transport is unchanged.
\<close>

theorem acquire_a2dp_rpc:
  "bt_fd (heap w p) = -1 \<Longrightarrow>
   (let t = heap w p;
        method = (if a2dp_state t = BLUEZ_A2DP_TRANSPORT_STATE_PENDING
                  then ''TryAcquire'' else ''Acquire'');
        (r, w') = transport_acquire_bt_a2dp env p w
    in filter is_rpc (new_events w w') =
         [Ev_dbus_call (bluez_dbus_owner t) (bluez_dbus_path t) method] \<and>
       (case e_dbus_send env (bluez_dbus_path t) method of
          Reply_method_return body \<Rightarrow>
            mtu_read (heap w' p) = store_uint16 (mtu_read t) (body_mtu_read body) \<and>
            mtu_write (heap w' p) = store_uint16 (mtu_write t) (body_mtu_write body) \<and>
            (mtu_read t < 65536 \<longrightarrow> mtu_read (heap w' p) = unat (body_mtu_read body)) \<and>
            (mtu_write t < 65536 \<longrightarrow> mtu_write (heap w' p) = unat (body_mtu_write body)) \<and>
            bt_fd (heap w' p) = g_unix_fd_list_get (body_fd_list body) 0 \<and>
            r = bt_fd (heap w' p)
        | Reply_error code \<Rightarrow> r = -1 \<and> heap w' = heap w
        | Reply_none \<Rightarrow> r = -1 \<and> heap w' = heap w))"
  by (cases "e_dbus_send env (bluez_dbus_path (heap w p))
        (if a2dp_state (heap w p) = BLUEZ_A2DP_TRANSPORT_STATE_PENDING
         then ''TryAcquire'' else ''Acquire'')")
     (simp_all add: transport_acquire_bt_a2dp_def store_uint16_def Let_def new_events_def)

theorem acquire_a2dp_rpc_witness:
  "bt_fd (heap w_a2dp_closed 0) = -1 \<and>
   mtu_read (heap w_a2dp_closed 0) < 65536 \<and> mtu_write (heap w_a2dp_closed 0) < 65536 \<and>
   filter is_rpc (new_events w_a2dp_closed (snd (transport_acquire_bt_a2dp env_ok 0 w_a2dp_closed))) =
     [Ev_dbus_call (Some '':1.5'') (Some ''/path'') ''Acquire''] \<and>
   mtu_read (heap (snd (transport_acquire_bt_a2dp env_ok 0 w_a2dp_closed)) 0) = 672 \<and>
   mtu_write (heap (snd (transport_acquire_bt_a2dp env_ok 0 w_a2dp_closed)) 0) = 895 \<and>
   bt_fd (heap (snd (transport_acquire_bt_a2dp env_ok 0 w_a2dp_closed)) 0) = 7"
  using acquire_a2dp_rpc [of w_a2dp_closed 0 env_ok]
  by (simp add: transport_acquire_bt_a2dp_def g_unix_fd_list_get_def store_uint16_def
      new_events_def ex_defs)

text \<open>
  Claim C3 as stated fails. The daemon's reply names handle index 1, attaches the
  descriptors 7 and 9 and carries the MTUs 672 and 895; the transport's MTU members
  hold 65536 from before. The handle index selects 9, and \<open>bt_fd\<close> becomes 7; the
  members become 66208 and 66431, not the reply's values.
\<close>

theorem acquire_a2dp_ignores_handle_index:
  "e_dbus_send env_ok (Some ''/path'') ''Acquire'' = Reply_method_return reply_ex \<and>
   g_unix_fd_list_get (body_fd_list reply_ex) (nat (body_handle reply_ex)) = 9 \<and>
   bt_fd (heap w_a2dp_wide 0) = -1 \<and>
   bt_fd (heap (snd (transport_acquire_bt_a2dp env_ok 0 w_a2dp_wide)) 0) = 7 \<and>
   bt_fd (heap (snd (transport_acquire_bt_a2dp env_ok 0 w_a2dp_wide)) 0) \<noteq>
     g_unix_fd_list_get (body_fd_list reply_ex) (nat (body_handle reply_ex)) \<and>
   unat (body_mtu_read reply_ex) = 672 \<and> unat (body_mtu_write reply_ex) = 895 \<and>
   mtu_read (heap (snd (transport_acquire_bt_a2dp env_ok 0 w_a2dp_wide)) 0) = 66208 \<and>
   mtu_write (heap (snd (transport_acquire_bt_a2dp env_ok 0 w_a2dp_wide)) 0) = 66431"
  by (simp add: transport_acquire_bt_a2dp_def g_unix_fd_list_get_def store_uint16_def
      reply_ex_def ex_defs)

subsection \<open>Codec-to-PCM mapping of SCO transports\<close>

text \<open>
  Claim C6, as the code has it. The SCO mapping sets both endpoints to 1 channel and
  the 16-bit signed little-endian format, with the sampling rate 8000 for CVSD, 16000
  for mSBC and 0 for every other codec identifier, the undefined one and unknown ones
  alike; on a transport with an SCO profile \<open>ba_transport_set_codec\<close> is this mapping
  and never fails.
\<close>

theorem set_codec_sco_mapping:
  "(let t = heap w p; t' = heap (ba_transport_set_codec_sco p w) p in
      pcm_channels (sco_spk_pcm t') = 1 \<and> pcm_channels (sco_mic_pcm t') = 1 \<and>
      pcm_format (sco_spk_pcm t') = BA_TRANSPORT_PCM_FORMAT_S16_2LE \<and>
      pcm_format (sco_mic_pcm t') = BA_TRANSPORT_PCM_FORMAT_S16_2LE \<and>
      pcm_sampling (sco_spk_pcm t') =
        (if codec (ttype t) = HFP_CODEC_CVSD then 8000
         else if codec (ttype t) = HFP_CODEC_MSBC then 16000 else 0) \<and>
      pcm_sampling (sco_mic_pcm t') = pcm_sampling (sco_spk_pcm t') \<and>
      ttype t' = ttype t) \<and>
   (profile (ttype (heap w p)) \<in> BA_TRANSPORT_PROFILE_MASK_SCO \<longrightarrow>
      ba_transport_set_codec env p c w =
        Inr (ba_transport_set_codec_sco p (upd p (\<lambda>t. t\<lparr>ttype := (ttype t)\<lparr>codec := c\<rparr>\<rparr>) w)))"
  by (simp add: ba_transport_set_codec_sco_def ba_transport_set_codec_def upd_def Let_def
      BA_TRANSPORT_PROFILE_MASK_SCO_def BA_TRANSPORT_PROFILE_MASK_A2DP_def
      BA_TRANSPORT_PROFILE_MASK_HFP_def BA_TRANSPORT_PROFILE_MASK_HSP_def)

theorem set_codec_sco_mapping_witness:
  "profile (ttype (heap w_sco 0)) \<in> BA_TRANSPORT_PROFILE_MASK_SCO \<and>
   pcm_sampling (sco_spk_pcm (heap (ba_transport_set_codec_sco 0 w_sco) 0)) = 16000 \<and>
   pcm_sampling (sco_mic_pcm (heap (projr (ba_transport_set_codec env_ok 0 HFP_CODEC_CVSD w_sco)) 0)) = 8000 \<and>
   pcm_sampling (sco_mic_pcm (heap (projr (ba_transport_set_codec env_ok 0 HFP_CODEC_UNDEFINED w_sco)) 0)) = 0"
  using set_codec_sco_mapping [of w_sco 0 env_ok HFP_CODEC_CVSD]
    set_codec_sco_mapping [of w_sco 0 env_ok HFP_CODEC_UNDEFINED]
  by (simp add: ba_transport_set_codec_sco_def ex_defs HFP_CODEC_CVSD_def HFP_CODEC_MSBC_def
      HFP_CODEC_UNDEFINED_def
      BA_TRANSPORT_PROFILE_MASK_SCO_def BA_TRANSPORT_PROFILE_MASK_A2DP_def
      BA_TRANSPORT_PROFILE_MASK_HFP_def BA_TRANSPORT_PROFILE_MASK_HSP_def)

text \<open>
  Claim C6 as stated fails: with the codec identifier 153, which is none of the three,
  the mapping does not stop at an assertion; it returns with the sampling rate 0.
\<close>

theorem set_codec_sco_unknown_codec_no_assert:
  "codec (ttype (heap w_sco_unknown 0)) = 153 \<and>
   153 \<noteq> HFP_CODEC_UNDEFINED \<and> 153 \<noteq> HFP_CODEC_CVSD \<and> 153 \<noteq> HFP_CODEC_MSBC \<and>
   ba_transport_set_codec env_ok 0 153 w_sco_unknown \<noteq> Inl Assertion_failed \<and>
   \<not> isl (ba_transport_set_codec env_ok 0 153 w_sco_unknown) \<and>
   pcm_sampling (sco_spk_pcm (heap (projr (ba_transport_set_codec env_ok 0 153 w_sco_unknown)) 0)) = 0"
  by (simp add: ba_transport_set_codec_def ba_transport_set_codec_sco_def w_sco_unknown_def ex_defs
     HFP_CODEC_CVSD_def HFP_CODEC_MSBC_def HFP_CODEC_UNDEFINED_def
      BA_TRANSPORT_PROFILE_MASK_SCO_def BA_TRANSPORT_PROFILE_MASK_A2DP_def
      BA_TRANSPORT_PROFILE_MASK_HFP_def BA_TRANSPORT_PROFILE_MASK_HSP_def)

subsection \<open>Creating an SCO transport\<close>

lemma thread_init_devices:
  "devices (snd (transport_thread_init env p th w)) = devices w"
  by (simp add: transport_thread_init_def Let_def split: option.splits prod.splits)

lemma transport_new_Some:
  assumes "transport_new env dv dbus_owner dbus_path w = Inr (Some p, w1)"
  shows "a_esco_support (devices w1 dv) = a_esco_support (devices w dv)"
proof (cases "e_calloc env")
  case None
  with assms show ?thesis by (simp add: transport_new_def)
next
  case (Some q)
  with assms show ?thesis
    by (auto simp: transport_new_def Let_def split_beta thread_init_devices
        split: if_splits sum.splits)
qed


lemma set_codec_not_a2dp_fields:
  assumes "profile (ttype (heap w p)) \<notin> BA_TRANSPORT_PROFILE_MASK_A2DP"
  shows "\<exists>w'. ba_transport_set_codec env p c w = Inr w' \<and>
     ttype (heap w' p) = (ttype (heap w p))\<lparr>codec := c\<rparr> \<and>
     pcm_max_bt_volume (sco_spk_pcm (heap w' p)) = pcm_max_bt_volume (sco_spk_pcm (heap w p)) \<and>
     pcm_max_bt_volume (sco_mic_pcm (heap w' p)) = pcm_max_bt_volume (sco_mic_pcm (heap w p)) \<and>
     pcm_mode (sco_spk_pcm (heap w' p)) = pcm_mode (sco_spk_pcm (heap w p)) \<and>
     pcm_mode (sco_mic_pcm (heap w' p)) = pcm_mode (sco_mic_pcm (heap w p))"
  using assms by (simp add: ba_transport_set_codec_def ba_transport_set_codec_sco_def Let_def)

lemma pcm_init_fields:
  "ttype (heap (transport_pcm_init p pcm th m w) p) = ttype (heap w p)"
  "pcm_mode (sco_spk_pcm (heap (transport_pcm_init p SCO_SPK_PCM th m w) p)) = m"
  "pcm_mode (sco_mic_pcm (heap (transport_pcm_init p SCO_MIC_PCM th m w) p)) = m"
  "sco_spk_pcm (heap (transport_pcm_init p SCO_MIC_PCM th m w) p) = sco_spk_pcm (heap w p)"
  by (cases pcm; simp add: transport_pcm_init_def Let_def)+

text \<open>
  Claim C5, as the code has it. When \<open>ba_transport_new_sco\<close> returns a transport for a
  type that is not an A2DP one, the transport's codec is CVSD if the profile is HSP, if
  the build has no mSBC support, or if the adapter lacks eSCO support, and the supplied
  codec otherwise; the profile is the supplied one; the speaker endpoint is in sink
  mode and the microphone endpoint in source mode, both with \<open>max_bt_volume = 15\<close>.
\<close>

theorem new_sco_codec_and_volume:
  assumes "ba_transport_new_sco env dv ty dbus_owner dbus_path rfcomm_fd w = Inr (Some p, w')"
    and "profile ty \<notin> BA_TRANSPORT_PROFILE_MASK_A2DP"
  shows "codec (ttype (heap w' p)) =
           (if profile ty \<in> BA_TRANSPORT_PROFILE_MASK_HSP \<or> \<not> ENABLE_MSBC env \<or>
               \<not> a_esco_support (devices w dv)
            then HFP_CODEC_CVSD else codec ty) \<and>
         profile (ttype (heap w' p)) = profile ty \<and>
         pcm_max_bt_volume (sco_spk_pcm (heap w' p)) = 15 \<and>
         pcm_mode (sco_spk_pcm (heap w' p)) = BA_TRANSPORT_PCM_MODE_SINK \<and>
         pcm_max_bt_volume (sco_mic_pcm (heap w' p)) = 15 \<and>
         pcm_mode (sco_mic_pcm (heap w' p)) = BA_TRANSPORT_PCM_MODE_SOURCE"
proof (cases "transport_new env dv dbus_owner dbus_path w")
  case (Inl e)
  with assms(1) show ?thesis by (simp add: ba_transport_new_sco_def)
next
  case (Inr r)
  obtain q w1 where r: "r = (q, w1)" by (cases r)
  show ?thesis
  proof (cases q)
    case None
    with assms(1) Inr r show ?thesis by (simp add: ba_transport_new_sco_def)
  next
    case (Some p0)
    have new: "transport_new env dv dbus_owner dbus_path w = Inr (Some p0, w1)"
      using Inr r Some by simp
    have esco: "a_esco_support (devices w1 dv) = a_esco_support (devices w dv)"
      using new by (rule transport_new_Some)
    define c2 where "c2 =
      (if profile ty \<in> BA_TRANSPORT_PROFILE_MASK_HSP \<or> \<not> ENABLE_MSBC env \<or>
          \<not> a_esco_support (devices w dv) then HFP_CODEC_CVSD else codec ty)"
    define ty2 where "ty2 = ty\<lparr>codec := c2\<rparr>"
    define w5 where "w5 =
      upd p0 (\<lambda>t. t\<lparr>acquire := Some FN_transport_acquire_bt_sco,
                      release := Some FN_transport_release_bt_sco\<rparr>)
        (upd p0 (pcm_upd SCO_MIC_PCM (\<lambda>x. x\<lparr>pcm_max_bt_volume := 15\<rparr>))
           (transport_pcm_init p0 SCO_MIC_PCM THREAD_ENC BA_TRANSPORT_PCM_MODE_SOURCE
              (upd p0 (pcm_upd SCO_SPK_PCM (\<lambda>x. x\<lparr>pcm_max_bt_volume := 15\<rparr>))
                 (transport_pcm_init p0 SCO_SPK_PCM THREAD_ENC BA_TRANSPORT_PCM_MODE_SINK
                    (upd p0 (\<lambda>t. t\<lparr>ttype := ty2\<rparr>) w1)))))"
    define finish where "finish = (\<lambda>wx. case ba_transport_set_codec env p0 c2 wx of
         Inl e \<Rightarrow> Inl e
       | Inr wy \<Rightarrow> Inr (Some p0, emit [Ev_dbus_pcm_register p0 SCO_SPK_PCM,
                                          Ev_dbus_pcm_register p0 SCO_MIC_PCM] wy))"
    have ty2_eq: "(if ENABLE_MSBC env then
                      (if \<not> a_esco_support (devices w1 dv)
                       then (if profile ty \<in> BA_TRANSPORT_PROFILE_MASK_HSP
                             then ty\<lparr>codec := HFP_CODEC_CVSD\<rparr> else ty)\<lparr>codec := HFP_CODEC_CVSD\<rparr>
                       else (if profile ty \<in> BA_TRANSPORT_PROFILE_MASK_HSP
                             then ty\<lparr>codec := HFP_CODEC_CVSD\<rparr> else ty))
                    else (if profile ty \<in> BA_TRANSPORT_PROFILE_MASK_HSP
                          then ty\<lparr>codec := HFP_CODEC_CVSD\<rparr> else ty)\<lparr>codec := HFP_CODEC_CVSD\<rparr>) = ty2"
      by (simp add: ty2_def c2_def esco)
    have c2_eq: "codec ty2 = c2" by (simp add: ty2_def)
    have sco_eq: "ba_transport_new_sco env dv ty dbus_owner dbus_path rfcomm_fd w =
       (if rfcomm_fd \<noteq> -1 then
          (case e_ba_rfcomm_new env rfcomm_fd of
             None \<Rightarrow>
               (case ba_transport_unref p0 (emit [Ev_rfcomm_new p0 rfcomm_fd] w5) of
                  Inl e \<Rightarrow> Inl e
                | Inr w' \<Rightarrow> Inr (None, w'))
           | Some r \<Rightarrow>
               finish (upd p0 (\<lambda>t. t\<lparr>sco_rfcomm := Some r\<rparr>)
                         (emit [Ev_rfcomm_new p0 rfcomm_fd] w5)))
        else finish w5)"
      unfolding ba_transport_new_sco_def new sum.case prod.case option.case Let_def ty2_eq c2_eq
        w5_def finish_def ..
    have f5: "ttype (heap w5 p0) = ty2"
      "pcm_max_bt_volume (sco_spk_pcm (heap w5 p0)) = 15"
      "pcm_max_bt_volume (sco_mic_pcm (heap w5 p0)) = 15"
      "pcm_mode (sco_spk_pcm (heap w5 p0)) = BA_TRANSPORT_PCM_MODE_SINK"
      "pcm_mode (sco_mic_pcm (heap w5 p0)) = BA_TRANSPORT_PCM_MODE_SOURCE"
      by (simp_all add: w5_def pcm_init_fields)
    have fin: "p = p0 \<and> ttype (heap w' p0) = ty2 \<and>
         pcm_max_bt_volume (sco_spk_pcm (heap w' p0)) = 15 \<and>
         pcm_mode (sco_spk_pcm (heap w' p0)) = BA_TRANSPORT_PCM_MODE_SINK \<and>
         pcm_max_bt_volume (sco_mic_pcm (heap w' p0)) = 15 \<and>
         pcm_mode (sco_mic_pcm (heap w' p0)) = BA_TRANSPORT_PCM_MODE_SOURCE"
      if fx: "finish wx = Inr (Some p, w')"
        and hx: "ttype (heap wx p0) = ty2"
          "pcm_max_bt_volume (sco_spk_pcm (heap wx p0)) = 15"
          "pcm_max_bt_volume (sco_mic_pcm (heap wx p0)) = 15"
          "pcm_mode (sco_spk_pcm (heap wx p0)) = BA_TRANSPORT_PCM_MODE_SINK"
          "pcm_mode (sco_mic_pcm (heap wx p0)) = BA_TRANSPORT_PCM_MODE_SOURCE" for wx
    proof -
      have "profile (ttype (heap wx p0)) \<notin> BA_TRANSPORT_PROFILE_MASK_A2DP"
        using assms(2) hx(1) by (simp add: ty2_def)
      from set_codec_not_a2dp_fields [OF this, of env c2] obtain wy where
        wy: "ba_transport_set_codec env p0 c2 wy = ba_transport_set_codec env p0 c2 wy"
          "ba_transport_set_codec env p0 c2 wx = Inr wy"
          "ttype (heap wy p0) = (ttype (heap wx p0))\<lparr>codec := c2\<rparr>"
          "pcm_max_bt_volume (sco_spk_pcm (heap wy p0)) = pcm_max_bt_volume (sco_spk_pcm (heap wx p0))"
          "pcm_max_bt_volume (sco_mic_pcm (heap wy p0)) = pcm_max_bt_volume (sco_mic_pcm (heap wx p0))"
          "pcm_mode (sco_spk_pcm (heap wy p0)) = pcm_mode (sco_spk_pcm (heap wx p0))"
          "pcm_mode (sco_mic_pcm (heap wy p0)) = pcm_mode (sco_mic_pcm (heap wx p0))"
        by blast
      from fx wy(2) have "p = p0" and "w' = emit [Ev_dbus_pcm_register p0 SCO_SPK_PCM,
                                          Ev_dbus_pcm_register p0 SCO_MIC_PCM] wy"
        by (auto simp: finish_def)
      then show ?thesis using wy hx by (simp add: ty2_def)
    qed
    have all: "p = p0 \<and> ttype (heap w' p0) = ty2 \<and>
         pcm_max_bt_volume (sco_spk_pcm (heap w' p0)) = 15 \<and>
         pcm_mode (sco_spk_pcm (heap w' p0)) = BA_TRANSPORT_PCM_MODE_SINK \<and>
         pcm_max_bt_volume (sco_mic_pcm (heap w' p0)) = 15 \<and>
         pcm_mode (sco_mic_pcm (heap w' p0)) = BA_TRANSPORT_PCM_MODE_SOURCE"
    proof (cases "rfcomm_fd \<noteq> -1")
      case False
      with assms(1) sco_eq have "finish w5 = Inr (Some p, w')" by simp
      then show ?thesis using f5 by (rule fin)
    next
      case True
      show ?thesis
      proof (cases "e_ba_rfcomm_new env rfcomm_fd")
        case None
        with True assms(1) sco_eq show ?thesis by (simp split: sum.splits)
      next
        case (Some r)
        with True assms(1) sco_eq
        have "finish (upd p0 (\<lambda>t. t\<lparr>sco_rfcomm := Some r\<rparr>)
                         (emit [Ev_rfcomm_new p0 rfcomm_fd] w5)) = Inr (Some p, w')" by simp
        then show ?thesis by (rule fin) (simp_all add: f5)
      qed
    qed
    then show ?thesis by (simp add: ty2_def c2_def)
  qed
qed

theorem new_sco_codec_and_volume_witness:
  "\<not> isl (ba_transport_new_sco env_ok 0
      \<lparr>profile = BA_TRANSPORT_PROFILE_HFP_AG, codec = HFP_CODEC_MSBC\<rparr> '':1.5'' ''/sco'' (-1) w_sco) \<and>
   fst (projr (ba_transport_new_sco env_ok 0
      \<lparr>profile = BA_TRANSPORT_PROFILE_HFP_AG, codec = HFP_CODEC_MSBC\<rparr> '':1.5'' ''/sco'' (-1) w_sco)) = Some 1 \<and>
   BA_TRANSPORT_PROFILE_HFP_AG \<notin> BA_TRANSPORT_PROFILE_MASK_A2DP \<and>
   codec (ttype (heap (snd (projr (ba_transport_new_sco env_ok 0
      \<lparr>profile = BA_TRANSPORT_PROFILE_HFP_AG, codec = HFP_CODEC_MSBC\<rparr> '':1.5'' ''/sco'' (-1) w_sco))) 1))
     = HFP_CODEC_MSBC \<and>
   pcm_max_bt_volume (sco_spk_pcm (heap (snd (projr (ba_transport_new_sco env_ok 0
      \<lparr>profile = BA_TRANSPORT_PROFILE_HFP_AG, codec = HFP_CODEC_MSBC\<rparr> '':1.5'' ''/sco'' (-1) w_sco))) 1))
     = 15"
proof -
  let ?r = "ba_transport_new_sco env_ok 0
      \<lparr>profile = BA_TRANSPORT_PROFILE_HFP_AG, codec = HFP_CODEC_MSBC\<rparr> '':1.5'' ''/sco'' (-1) w_sco"
  have new: "\<exists>w1. transport_new env_ok 0 '':1.5'' ''/sco'' w_sco = Inr (Some 1, w1) "
    by (simp add: transport_new_def transport_thread_init_def Let_def env_ok_def)
  then obtain w1 where w1: "transport_new env_ok 0 '':1.5'' ''/sco'' w_sco = Inr (Some 1, w1)" ..
  have "\<exists>w'. ?r = Inr (Some 1, w')"
    by (simp add: ba_transport_new_sco_def w1 Let_def ba_transport_set_codec_def mask_defs
        transport_pcm_init_def)
  then obtain w' where r: "?r = Inr (Some 1, w')" ..
  have na: "BA_TRANSPORT_PROFILE_HFP_AG \<notin> BA_TRANSPORT_PROFILE_MASK_A2DP" by (simp add: mask_defs)
  have esco: "a_esco_support (devices w_sco 0)" "ENABLE_MSBC env_ok"
    by (simp_all add: ex_defs)
  from new_sco_codec_and_volume [OF r] na esco
  show ?thesis unfolding r by (simp add: mask_defs)
qed

text \<open>
  Claim C5 as stated fails: in a build without mSBC, creating an HFP-AG transport with
  the codec mSBC on an adapter with eSCO support gives a transport with the codec CVSD.
\<close>

theorem new_sco_without_msbc_forces_cvsd:
  "\<not> isl (ba_transport_new_sco env_no_msbc 0
      \<lparr>profile = BA_TRANSPORT_PROFILE_HFP_AG, codec = HFP_CODEC_MSBC\<rparr> '':1.5'' ''/sco'' (-1) w_sco) \<and>
   fst (projr (ba_transport_new_sco env_no_msbc 0
      \<lparr>profile = BA_TRANSPORT_PROFILE_HFP_AG, codec = HFP_CODEC_MSBC\<rparr> '':1.5'' ''/sco'' (-1) w_sco)) = Some 1 \<and>
   BA_TRANSPORT_PROFILE_HFP_AG \<notin> BA_TRANSPORT_PROFILE_MASK_HSP \<and>
   a_esco_support (devices w_sco 0) \<and>
   codec (ttype (heap (snd (projr (ba_transport_new_sco env_no_msbc 0
      \<lparr>profile = BA_TRANSPORT_PROFILE_HFP_AG, codec = HFP_CODEC_MSBC\<rparr> '':1.5'' ''/sco'' (-1) w_sco))) 1))
     = HFP_CODEC_CVSD \<and>
   HFP_CODEC_CVSD \<noteq> HFP_CODEC_MSBC"
proof -
  let ?r = "ba_transport_new_sco env_no_msbc 0
      \<lparr>profile = BA_TRANSPORT_PROFILE_HFP_AG, codec = HFP_CODEC_MSBC\<rparr> '':1.5'' ''/sco'' (-1) w_sco"
  have new: "\<exists>w1. transport_new env_no_msbc 0 '':1.5'' ''/sco'' w_sco = Inr (Some 1, w1) "
    by (simp add: transport_new_def transport_thread_init_def Let_def env_ok_def env_no_msbc_def)
  then obtain w1 where w1: "transport_new env_no_msbc 0 '':1.5'' ''/sco'' w_sco = Inr (Some 1, w1)" ..
  have en: "\<not> ENABLE_MSBC env_no_msbc" by (simp add: env_no_msbc_def env_ok_def)
  have "\<exists>w'. ?r = Inr (Some 1, w')"
    by (simp add: ba_transport_new_sco_def w1 Let_def ba_transport_set_codec_def mask_defs
        transport_pcm_init_def en)
  then obtain w' where r: "?r = Inr (Some 1, w')" ..
  have c: "codec (ttype (heap w' 1)) = HFP_CODEC_CVSD"
    using r
    by (auto simp: ba_transport_new_sco_def w1 Let_def ba_transport_set_codec_def mask_defs
        ba_transport_set_codec_sco_def transport_pcm_init_def en)
  show ?thesis unfolding r using c by (simp add: mask_defs codec_defs ex_defs)
qed

subsection \<open>The A2DP state\<close>

lemma call_transport_fn_a2dp_state:
  "a2dp_state (heap (snd (call_transport_fn env f p w)) q) = a2dp_state (heap w q)"
  by (cases f)
     (simp_all add: transport_acquire_bt_a2dp_def transport_release_bt_a2dp_def
        transport_acquire_bt_sco_def transport_release_bt_sco_def upd_def emit_def Let_def
        split: dbus_reply.splits)

lemma thread_cancel_a2dp_state:
  "a2dp_state (heap (transport_thread_cancel env p th w) q) = a2dp_state (heap w q)"
  by (cases th) (simp_all add: transport_thread_cancel_def upd_def emit_def Let_def)

text \<open>
  Claim C4. \<open>ba_transport_set_a2dp_state\<close> first stores the state, whatever it is, and
  then does what the target state asks for, on the transport with the new state: for
  PENDING it is the acquire if the profile is A2DP-sink and otherwise nothing, with
  result 0; for ACTIVE it is the start; for IDLE and every other value it is the stop.
  After PENDING, IDLE and the other values the stored state is still the given one.
\<close>

theorem set_a2dp_state_effect:
  "(let w1 = upd p (\<lambda>t. t\<lparr>a2dp_state := s\<rparr>) w in
      a2dp_state (heap w1 p) = s \<and>
      ba_transport_set_a2dp_state env p s w =
        (if s = BLUEZ_A2DP_TRANSPORT_STATE_PENDING then
           (if profile (ttype (heap w p)) = BA_TRANSPORT_PROFILE_A2DP_SINK
            then ba_transport_acquire env p w1 else Inr (0, w1))
         else if s = BLUEZ_A2DP_TRANSPORT_STATE_ACTIVE then ba_transport_start env p w1
         else ba_transport_stop env p w1) \<and>
      (\<forall>r w'. s \<noteq> BLUEZ_A2DP_TRANSPORT_STATE_ACTIVE \<and>
               ba_transport_set_a2dp_state env p s w = Inr (r, w') \<longrightarrow>
               a2dp_state (heap w' p) = s))"
proof -
  let ?w1 = "upd p (\<lambda>t. t\<lparr>a2dp_state := s\<rparr>) w"
  have st: "a2dp_state (heap ?w1 p) = s" by (simp add: upd_def)
  have pr: "profile (ttype (heap ?w1 p)) = profile (ttype (heap w p))" by (simp add: upd_def)
  have eq: "ba_transport_set_a2dp_state env p s w =
        (if s = BLUEZ_A2DP_TRANSPORT_STATE_PENDING then
           (if profile (ttype (heap w p)) = BA_TRANSPORT_PROFILE_A2DP_SINK
            then ba_transport_acquire env p ?w1 else Inr (0, ?w1))
         else if s = BLUEZ_A2DP_TRANSPORT_STATE_ACTIVE then ba_transport_start env p ?w1
         else ba_transport_stop env p ?w1)"
    unfolding ba_transport_set_a2dp_state_def Let_def pr by (cases s) simp_all
  have keep: "a2dp_state (heap w' p) = s"
    if "s \<noteq> BLUEZ_A2DP_TRANSPORT_STATE_ACTIVE"
      and "ba_transport_set_a2dp_state env p s w = Inr (r, w')" for r w'
  proof -
    have acq: "a2dp_state (heap w' p) = s" if "ba_transport_acquire env p ?w1 = Inr (r, w')"
    proof -
      from that obtain f where "call_transport_fn env f p ?w1 = (r, w')"
        by (auto simp: ba_transport_acquire_def split: option.splits)
      then have "w' = snd (call_transport_fn env f p ?w1)" by simp
      then show ?thesis by (simp only: call_transport_fn_a2dp_state st)
    qed
    have stop: "a2dp_state (heap w' p) = s" if "ba_transport_stop env p ?w1 = Inr (r, w')"
      using that by (auto simp: ba_transport_stop_def thread_cancel_a2dp_state st)
    from that show ?thesis
      unfolding eq using acq stop st by (auto split: if_splits)
  qed
  show ?thesis unfolding Let_def using st eq keep by blast
qed

theorem set_a2dp_state_effect_witness:
  "profile (ttype (heap w_a2dp_closed 0)) = BA_TRANSPORT_PROFILE_A2DP_SINK \<and>
   fst (projr (ba_transport_set_a2dp_state env_ok 0 BLUEZ_A2DP_TRANSPORT_STATE_PENDING w_a2dp_closed)) = 7 \<and>
   a2dp_state (heap (snd (projr (ba_transport_set_a2dp_state env_ok 0
      BLUEZ_A2DP_TRANSPORT_STATE_PENDING w_a2dp_closed))) 0) = BLUEZ_A2DP_TRANSPORT_STATE_PENDING \<and>
   filter is_rpc (trace (snd (projr (ba_transport_set_a2dp_state env_ok 0
      BLUEZ_A2DP_TRANSPORT_STATE_PENDING w_a2dp_closed)))) =
     [Ev_dbus_call (Some '':1.5'') (Some ''/path'') ''TryAcquire''] \<and>
   trace (snd (projr (ba_transport_set_a2dp_state env_ok 0
      BLUEZ_A2DP_TRANSPORT_STATE_PENDING w_a2dp_source_muted))) = [] \<and>
   fst (projr (ba_transport_set_a2dp_state env_ok 0 BLUEZ_A2DP_TRANSPORT_STATE_IDLE w_a2dp)) = 0"
  using set_a2dp_state_effect [of 0 BLUEZ_A2DP_TRANSPORT_STATE_PENDING w_a2dp_closed env_ok]
    set_a2dp_state_effect [of 0 BLUEZ_A2DP_TRANSPORT_STATE_IDLE w_a2dp env_ok]
  by (simp add: ba_transport_set_a2dp_state_def ba_transport_acquire_def ba_transport_stop_def
      transport_thread_cancel_def
      transport_acquire_bt_a2dp_def g_unix_fd_list_get_def store_uint16_def ex_defs)

subsection \<open>Volume\<close>

text \<open>The raw volume is never above the endpoint's maximum.\<close>

lemma level_to_bt_le:
  "ba_transport_pcm_volume_level_to_bt env x v \<le> pcm_max_bt_volume x"
  by (simp add: ba_transport_pcm_volume_level_to_bt_def Let_def)

text \<open>
  What \<open>ba_transport_pcm_volume_update\<close> does on an endpoint with a muted channel. It
  returns 0 and always tells the local clients. To the peer it sends nothing when the
  endpoint has software volume and the profile is A2DP-source or an audio gateway;
  otherwise, for an A2DP profile, it sets the peer's \<^verbatim>\<open>Volume\<close> property once, to
  the raw volume of the level 0; for an SCO profile with an RFCOMM session it sends the
  session the signal \<^verbatim>\<open>UPDATE_VOLUME\<close>, which carries no value.
\<close>

lemma volume_update_on_muted:
  "muted (pcm_volume_0 (pcm_of pcm (heap w p))) \<or> muted (pcm_volume_1 (pcm_of pcm (heap w p))) \<Longrightarrow>
   (let t = heap w p; x = pcm_of pcm t in
    ba_transport_pcm_volume_update env p pcm w =
      (0, emit
         ((if pcm_soft_volume x \<and>
              (profile (ttype t) = BA_TRANSPORT_PROFILE_A2DP_SOURCE \<or>
               profile (ttype t) \<in> BA_TRANSPORT_PROFILE_MASK_AG) then []
           else if profile (ttype t) \<in> BA_TRANSPORT_PROFILE_MASK_A2DP then
             [Ev_dbus_set_property (bluez_dbus_owner t) (bluez_dbus_path t) ''Volume''
                (ba_transport_pcm_volume_level_to_bt env x 0 mod 65536)]
           else if profile (ttype t) \<in> BA_TRANSPORT_PROFILE_MASK_SCO then
             (case sco_rfcomm t of
                None \<Rightarrow> []
              | Some r \<Rightarrow> [Ev_rfcomm_send_signal r BA_RFCOMM_SIGNAL_UPDATE_VOLUME])
           else []) @ [Ev_dbus_pcm_update p pcm]) w))"
  by (auto simp: ba_transport_pcm_volume_update_def emit_def Let_def split: option.splits)

text \<open>
  Claim C8 at a failing input. The loudness curve of the environment is 1 at 0 dB and 0
  at -96 dB. On the A2DP sink endpoint with a muted channel, without software volume,
  the code takes the level 0, which is 0 dB, and sets the peer's volume to 127, the
  maximum; the claim says it sends 0. The value 0 is what the same endpoint sends with
  no channel muted and both levels at -96 dB.
\<close>

theorem muted_sink_sends_max_volume:
  "muted (pcm_volume_0 (pcm_of A2DP_PCM (heap w_a2dp_sink_muted 0))) \<and>
   \<not> pcm_soft_volume (pcm_of A2DP_PCM (heap w_a2dp_sink_muted 0)) \<and>
   pcm_max_bt_volume (pcm_of A2DP_PCM (heap w_a2dp_sink_muted 0)) = 127 \<and>
   e_decibel_to_loudness_scaled env_unity 0 127 = 127 \<and>
   e_decibel_to_loudness_scaled env_unity (-9600) 127 = 0 \<and>
   new_events w_a2dp_sink_muted
     (snd (ba_transport_pcm_volume_update env_unity 0 A2DP_PCM w_a2dp_sink_muted)) =
     [Ev_dbus_set_property (Some '':1.5'') (Some ''/path'') ''Volume'' 127,
      Ev_dbus_pcm_update 0 A2DP_PCM] \<and>
   new_events w_a2dp_sink_quiet
     (snd (ba_transport_pcm_volume_update env_unity 0 A2DP_PCM w_a2dp_sink_quiet)) =
     [Ev_dbus_set_property (Some '':1.5'') (Some ''/path'') ''Volume'' 0,
      Ev_dbus_pcm_update 0 A2DP_PCM]"
proof -
  have a1: "e_decibel_to_loudness_scaled env_unity 0 127 = 127"
    by (simp add: env_unity_def env_ok_def)
  have a2: "e_decibel_to_loudness_scaled env_unity (-9600) 127 = 0"
    by (simp add: env_unity_def env_ok_def)
  have a3: "c_div (c_int_add (-9600) (-9600)) 2 = -9600"
    by (simp add: c_div_def c_int_add_def)
  have a4: "new_events w_a2dp_sink_muted
     (snd (ba_transport_pcm_volume_update env_unity 0 A2DP_PCM w_a2dp_sink_muted)) =
     [Ev_dbus_set_property (Some '':1.5'') (Some ''/path'') ''Volume'' 127,
      Ev_dbus_pcm_update 0 A2DP_PCM]"
    by (simp add: ba_transport_pcm_volume_update_def ba_transport_pcm_volume_level_to_bt_def a1
        new_events_def mask_defs w_a2dp_sink_muted_def w_a2dp_def t_a2dp_def pcm_ex_def
        zero_pcm_def zero_transport_def zero_thread_def)
  have a5: "new_events w_a2dp_sink_quiet
     (snd (ba_transport_pcm_volume_update env_unity 0 A2DP_PCM w_a2dp_sink_quiet)) =
     [Ev_dbus_set_property (Some '':1.5'') (Some ''/path'') ''Volume'' 0,
      Ev_dbus_pcm_update 0 A2DP_PCM]"
    by (simp add: ba_transport_pcm_volume_update_def ba_transport_pcm_volume_level_to_bt_def
        a2 a3 new_events_def mask_defs w_a2dp_sink_quiet_def w_a2dp_def t_a2dp_def pcm_ex_def
        zero_pcm_def zero_transport_def zero_thread_def)
  have a6: "muted (pcm_volume_0 (pcm_of A2DP_PCM (heap w_a2dp_sink_muted 0))) \<and>
     \<not> pcm_soft_volume (pcm_of A2DP_PCM (heap w_a2dp_sink_muted 0)) \<and>
     pcm_max_bt_volume (pcm_of A2DP_PCM (heap w_a2dp_sink_muted 0)) = 127"
    by (simp add: w_a2dp_sink_muted_def w_a2dp_def t_a2dp_def pcm_ex_def zero_pcm_def
        zero_transport_def)
  from a1 a2 a4 a5 a6 show ?thesis by blast
qed

text \<open>
  The gate of software volume: on the A2DP source endpoint with software volume and a
  muted channel the only call is the notification of the local clients.
\<close>

lemma soft_volume_muted_sends_nothing:
  "muted (pcm_volume_0 (pcm_of A2DP_PCM (heap w_a2dp_source_muted 0))) \<and>
   new_events w_a2dp_source_muted
     (snd (ba_transport_pcm_volume_update env_ok 0 A2DP_PCM w_a2dp_source_muted)) =
     [Ev_dbus_pcm_update 0 A2DP_PCM]"
  by (simp add: ba_transport_pcm_volume_update_def new_events_def mask_defs ex_defs)

subsection \<open>Dropping a reference\<close>

lemma pcm_free_trace:
  "trace (transport_pcm_free p pcm w) = trace w @ pcm_free_events p pcm (pcm_of pcm (heap w p))"
  by (cases pcm)
     (simp_all add: transport_pcm_free_def ba_transport_pcm_release_def pcm_free_events_def
        upd_def emit_def Let_def)

lemma pcm_free_rest:
  "devices (transport_pcm_free p pcm w) = devices w"
  "live (transport_pcm_free p pcm w) = live w"
  "thread_enc (heap (transport_pcm_free p pcm w) q) = thread_enc (heap w q)"
  "thread_dec (heap (transport_pcm_free p pcm w) q) = thread_dec (heap w q)"
  by (cases pcm;
      simp add: transport_pcm_free_def ba_transport_pcm_release_def upd_def emit_def Let_def)+

lemma pcm_free_other:
  "a2dp_pcm_bc (heap (transport_pcm_free p A2DP_PCM w) q) = a2dp_pcm_bc (heap w q)"
  "sco_mic_pcm (heap (transport_pcm_free p SCO_SPK_PCM w) q) = sco_mic_pcm (heap w q)"
  by (simp_all add: transport_pcm_free_def ba_transport_pcm_release_def upd_def emit_def Let_def)

lemma thread_free_eq:
  "transport_thread_free p th w = emit (thread_free_events p th (thread_of th (heap w p))) w"
  by (simp add: transport_thread_free_def thread_free_events_def Let_def)

lemma steal_proj:
  "heap (g_hash_table_steal dv key w) = heap w"
  "live (g_hash_table_steal dv key w) = live w"
  "trace (g_hash_table_steal dv key w) = trace w @ [Ev_hash_table_steal dv key]"
  "devices (g_hash_table_steal dv key w) =
     (devices w)(dv := (devices w dv)\<lparr>transports :=
        (case key of None \<Rightarrow> transports (devices w dv)
                   | Some k \<Rightarrow> (transports (devices w dv))(k := None))\<rparr>)"
  by (simp_all add: g_hash_table_steal_def Let_def emit_def)

lemma unref_positive:
  "1 < ref_count (heap w p) \<Longrightarrow>
   ba_transport_unref p w =
     Inr (emit [Ev_mutex_unlock (Transports_mutex (t_d (heap w p)))]
           (emit [Ev_ref_count_store p (ref_count (heap w p) - 1)]
             (upd p (\<lambda>t. t\<lparr>ref_count := ref_count t - 1\<rparr>)
               (emit [Ev_mutex_lock (Transports_mutex (t_d (heap w p)))] w))))"
  by (simp add: ba_transport_unref_def Let_def)

lemma unref_negative:
  "ref_count (heap w p) < 1 \<Longrightarrow> ba_transport_unref p w = Inl Assertion_failed"
  by (simp add: ba_transport_unref_def Let_def)

lemma unref_zero:
  assumes "ref_count (heap w p) = 1"
  shows "\<exists>w'. ba_transport_unref p w = Inr w' \<and>
     trace w' = trace w @
       [Ev_mutex_lock (Transports_mutex (t_d (heap w p))),
        Ev_ref_count_store p 0,
        Ev_hash_table_steal (t_d (heap w p)) (bluez_dbus_path (heap w p)),
        Ev_mutex_unlock (Transports_mutex (t_d (heap w p)))] @
       (if bt_fd (heap w p) \<noteq> -1 then [Ev_close (bt_fd (heap w p))] else []) @
       [Ev_device_unref (t_d (heap w p))] @
       profile_free_events p (heap w p) @
       thread_free_events p THREAD_ENC (thread_enc (heap w p)) @
       thread_free_events p THREAD_DEC (thread_dec (heap w p)) @
       [Ev_mutex_destroy (Bt_fd_mtx p), Ev_mutex_destroy (Type_mtx p),
        Ev_free (Mem_bluez_dbus_owner p), Ev_free (Mem_bluez_dbus_path p),
        Ev_free (Mem_transport p)] \<and>
     live w' = live w - {p} \<and>
     devices w' = (devices w)(t_d (heap w p) := (devices w (t_d (heap w p)))\<lparr>transports :=
        (case bluez_dbus_path (heap w p) of
           None \<Rightarrow> transports (devices w (t_d (heap w p)))
         | Some k \<Rightarrow> (transports (devices w (t_d (heap w p))))(k := None))\<rparr>)"
  using assms
  by (simp add: ba_transport_unref_def Let_def steal_proj pcm_free_trace
      pcm_free_rest pcm_free_other thread_free_eq profile_free_events_def
      split: option.splits)

text \<open>What the calls of holders do to a transport that is unreachable.\<close>

lemma free_events_no_store:
  "filter (is_ref_count_store p) (pcm_free_events q pcm x) = []"
  "filter (is_ref_count_store p) (thread_free_events q th y) = []"
  "filter (is_ref_count_store p) (profile_free_events q t) = []"
  by (simp_all add: pcm_free_events_def thread_free_events_def profile_free_events_def
      split: option.splits)

lemma lookup_unreachable:
  assumes "unreachable p w"
  shows "unreachable p (snd (ba_transport_lookup dv k w)) \<and>
         filter (is_ref_count_store p) (trace (snd (ba_transport_lookup dv k w))) =
           filter (is_ref_count_store p) (trace w)"
proof (cases "transports (devices w dv) k")
  case None
  with assms show ?thesis
    by (simp add: ba_transport_lookup_def Let_def unreachable_def)
next
  case (Some q)
  with assms have "q \<noteq> p" by (auto simp: unreachable_def)
  with assms Some show ?thesis
    by (simp add: ba_transport_lookup_def Let_def unreachable_def)
qed

lemma ref_unreachable:
  assumes "unreachable p w" and "q \<in> live w"
  shows "unreachable p (ba_transport_ref q w) \<and>
         filter (is_ref_count_store p) (trace (ba_transport_ref q w)) =
           filter (is_ref_count_store p) (trace w)"
proof -
  from assms have "q \<noteq> p" by (auto simp: unreachable_def)
  with assms show ?thesis
    by (simp add: ba_transport_ref_def Let_def unreachable_def)
qed

lemma unref_unreachable:
  assumes u: "unreachable p w" and q: "q \<in> live w" and r: "ba_transport_unref q w = Inr w'"
  shows "unreachable p w' \<and>
         filter (is_ref_count_store p) (trace w') = filter (is_ref_count_store p) (trace w)"
proof -
  from u q have ne: "q \<noteq> p" by (auto simp: unreachable_def)
  consider "1 < ref_count (heap w q)" | "ref_count (heap w q) = 1" | "ref_count (heap w q) < 1"
    by linarith
  then show ?thesis
  proof cases
    case 1
    from r u ne show ?thesis
      by (auto simp: unref_positive [OF 1] unreachable_def)
  next
    case 2
    from unref_zero [OF 2] r obtain
      tr: "filter (is_ref_count_store p) (trace w') = filter (is_ref_count_store p) (trace w)"
      and lv: "live w' = live w - {q}"
      and dv: "devices w' = (devices w)(t_d (heap w q) := (devices w (t_d (heap w q)))\<lparr>transports :=
        (case bluez_dbus_path (heap w q) of
           None \<Rightarrow> transports (devices w (t_d (heap w q)))
         | Some k \<Rightarrow> (transports (devices w (t_d (heap w q))))(k := None))\<rparr>)"
      using ne by (auto simp: free_events_no_store)
    have "transports (devices w' d) k \<noteq> Some p" for d k
      using u by (auto simp: dv unreachable_def split: option.splits)
    with u lv tr show ?thesis by (simp add: unreachable_def)
  next
    case 3
    with r show ?thesis by (simp add: unref_negative)
  qed
qed

lemma run_unreachable:
  "unreachable p w \<Longrightarrow> run ops w = Inr w' \<Longrightarrow>
   unreachable p w' \<and>
   filter (is_ref_count_store p) (trace w') = filter (is_ref_count_store p) (trace w) \<and>
   length (trace w) \<le> length (trace w')"
proof (induction ops arbitrary: w)
  case Nil
  then show ?case by simp
next
  case (Cons a ops)
  show ?case
  proof (cases a)
    case (Op_lookup dv k)
    from lookup_unreachable [OF Cons.prems(1), of dv k] Cons.prems(2) Op_lookup
      Cons.IH [of "snd (ba_transport_lookup dv k w)"]
    have "unreachable p w' \<and>
      filter (is_ref_count_store p) (trace w') = filter (is_ref_count_store p) (trace w) \<and>
      length (trace (snd (ba_transport_lookup dv k w))) \<le> length (trace w')"
      by simp
    moreover have "length (trace w) \<le> length (trace (snd (ba_transport_lookup dv k w)))"
      by (simp add: ba_transport_lookup_def Let_def split: option.splits)
    ultimately show ?thesis by simp
  next
    case (Op_ref q)
    with Cons.prems(2) have q: "q \<in> live w" and rn: "run ops (ba_transport_ref q w) = Inr w'"
      by (simp_all split: if_splits)
    from ref_unreachable [OF Cons.prems(1) q] Cons.IH [OF _ rn]
    have "unreachable p w' \<and>
      filter (is_ref_count_store p) (trace w') = filter (is_ref_count_store p) (trace w) \<and>
      length (trace (ba_transport_ref q w)) \<le> length (trace w')"
      by simp
    moreover have "length (trace w) \<le> length (trace (ba_transport_ref q w))"
      by (simp add: ba_transport_ref_def Let_def)
    ultimately show ?thesis by simp
  next
    case (Op_unref q)
    with Cons.prems(2) obtain w1 where q: "q \<in> live w"
      and r: "ba_transport_unref q w = Inr w1" and rn: "run ops w1 = Inr w'"
      by (auto split: if_splits sum.splits)
    from unref_unreachable [OF Cons.prems(1) q r] Cons.IH [OF _ rn]
    have "unreachable p w' \<and>
      filter (is_ref_count_store p) (trace w') = filter (is_ref_count_store p) (trace w) \<and>
      length (trace w1) \<le> length (trace w')"
      by simp
    moreover have "length (trace w) \<le> length (trace w1)"
    proof -
      consider "1 < ref_count (heap w q)" | "ref_count (heap w q) = 1" | "ref_count (heap w q) < 1"
        by linarith
      then show ?thesis
      proof cases
        case 1
        with r show ?thesis by (auto simp: unref_positive)
      next
        case 2
        from unref_zero [OF 2] r show ?thesis by auto
      next
        case 3
        with r show ?thesis by (simp add: unref_negative)
      qed
    qed
    ultimately show ?thesis by simp
  qed
qed

lemma filter_new_events:
  assumes "filter P (trace w') = filter P (trace w)" and "length (trace w) \<le> length (trace w')"
    and "take (length (trace w)) (trace w') = trace w"
  shows "filter P (new_events w w') = []"
proof -
  have "trace w' = trace w @ new_events w w'"
    using assms(3) by (metis append_take_drop_id new_events_def)
  then have "filter P (trace w') = filter P (trace w) @ filter P (new_events w w')"
    by (metis filter_append)
  with assms(1) show ?thesis by simp
qed

lemma run_prefix:
  "run ops w = Inr w' \<Longrightarrow> take (length (trace w)) (trace w') = trace w"
proof (induction ops arbitrary: w)
  case Nil
  then show ?case by simp
next
  case (Cons a ops)
  have ext: "take (length (trace w)) (trace w') = trace w"
    if "run ops w1 = Inr w'" and "trace w1 = trace w @ evs" for w1 evs
  proof -
    from Cons.IH [OF that(1)] have "take (length (trace w1)) (trace w') = trace w1" .
    then have "trace w' = trace w @ evs @ drop (length (trace w1)) (trace w')"
      by (metis that(2) append_take_drop_id append.assoc)
    then show ?thesis by (metis append_eq_conv_conj)
  qed
  show ?case
  proof (cases a)
    case (Op_lookup dv k)
    have "\<exists>evs. trace (snd (ba_transport_lookup dv k w)) = trace w @ evs"
      by (simp add: ba_transport_lookup_def Let_def split: option.splits)
    with Cons.prems Op_lookup ext show ?thesis by auto
  next
    case (Op_ref q)
    have "\<exists>evs. trace (ba_transport_ref q w) = trace w @ evs"
      by (simp add: ba_transport_ref_def Let_def)
    with Cons.prems Op_ref ext show ?thesis by (auto split: if_splits)
  next
    case (Op_unref q)
    with Cons.prems obtain w1 where
      r: "ba_transport_unref q w = Inr w1" and rn: "run ops w1 = Inr w'"
      by (auto split: if_splits sum.splits)
    have "\<exists>evs. trace w1 = trace w @ evs"
    proof -
      consider "1 < ref_count (heap w q)" | "ref_count (heap w q) = 1" | "ref_count (heap w q) < 1"
        by linarith
      then show ?thesis
      proof cases
        case 1
        with r show ?thesis by (auto simp: unref_positive)
      next
        case 2
        from unref_zero [OF 2] r show ?thesis by auto
      next
        case 3
        with r show ?thesis by (simp add: unref_negative)
      qed
    qed
    with rn ext show ?thesis by auto
  qed
qed

text \<open>
  Claim C9, as the code has it. \<open>ba_transport_unref\<close> takes the transports mutex of the
  owning device, stores the decremented count and, if the count is now zero, removes
  the transport's path from the device's table, and only then drops the mutex. With a
  count still positive nothing else happens. With the count zero the calls that follow
  are, in this order: the Bluetooth descriptor is closed if there is one, the device is
  unref'd, the profile's endpoints and blob are freed (for SCO the RFCOMM session
  first), the encoder and then the decoder thread handle are freed, and the transport
  itself is freed and is no longer live. A lookup of its path in its device then finds
  nothing. If the tables name the transport only under its own path, no lookup returns
  it, and whatever the holders of references do afterwards, the transport stays freed
  and its count is never stored again: it reaches zero at most once. A count that
  falls below zero stops the program at the assertion.
\<close>

theorem unref_behaviour:
  "(1 < ref_count (heap w p) \<longrightarrow>
      (\<exists>w'. ba_transport_unref p w = Inr w' \<and>
            ref_count (heap w' p) = ref_count (heap w p) - 1 \<and>
            new_events w w' =
        [Ev_mutex_lock (Transports_mutex (t_d (heap w p))),
         Ev_ref_count_store p (ref_count (heap w p) - 1),
         Ev_mutex_unlock (Transports_mutex (t_d (heap w p)))] \<and>
            devices w' = devices w \<and> live w' = live w)) \<and>
   (ref_count (heap w p) = 1 \<longrightarrow>
      (\<exists>w'. ba_transport_unref p w = Inr w' \<and>
            new_events w w' =
       [Ev_mutex_lock (Transports_mutex (t_d (heap w p))),
        Ev_ref_count_store p 0,
        Ev_hash_table_steal (t_d (heap w p)) (bluez_dbus_path (heap w p)),
        Ev_mutex_unlock (Transports_mutex (t_d (heap w p)))] @
       (if bt_fd (heap w p) \<noteq> -1 then [Ev_close (bt_fd (heap w p))] else []) @
       [Ev_device_unref (t_d (heap w p))] @
       profile_free_events p (heap w p) @
       thread_free_events p THREAD_ENC (thread_enc (heap w p)) @
       thread_free_events p THREAD_DEC (thread_dec (heap w p)) @
       [Ev_mutex_destroy (Bt_fd_mtx p), Ev_mutex_destroy (Type_mtx p),
        Ev_free (Mem_bluez_dbus_owner p), Ev_free (Mem_bluez_dbus_path p),
        Ev_free (Mem_transport p)] \<and>
            p \<notin> live w' \<and>
            (\<forall>k. bluez_dbus_path (heap w p) = Some k \<longrightarrow>
                 fst (ba_transport_lookup (t_d (heap w p)) k w') = None) \<and>
            (table_keys_are_paths w p \<longrightarrow>
               (\<forall>dv k. fst (ba_transport_lookup dv k w') \<noteq> Some p) \<and>
               (\<forall>ops w''. run ops w' = Inr w'' \<longrightarrow>
                  p \<notin> live w'' \<and>
                  filter (is_ref_count_store p) (new_events w' w'') = [])))) \<and>
   (ref_count (heap w p) < 1 \<longrightarrow> ba_transport_unref p w = Inl Assertion_failed)"
proof (intro conjI impI)
  assume "1 < ref_count (heap w p)"
  then show "(\<exists>w'. ba_transport_unref p w = Inr w' \<and>
            ref_count (heap w' p) = ref_count (heap w p) - 1 \<and>
            new_events w w' =
        [Ev_mutex_lock (Transports_mutex (t_d (heap w p))),
         Ev_ref_count_store p (ref_count (heap w p) - 1),
         Ev_mutex_unlock (Transports_mutex (t_d (heap w p)))] \<and>
            devices w' = devices w \<and> live w' = live w)"
    by (simp add: unref_positive new_events_def)
next
  assume "ref_count (heap w p) < 1"
  then show "ba_transport_unref p w = Inl Assertion_failed" by (rule unref_negative)
next
  assume one: "ref_count (heap w p) = 1"
  from unref_zero [OF one] obtain w' where
    r: "ba_transport_unref p w = Inr w'" and
    tr: "trace w' = trace w @
       [Ev_mutex_lock (Transports_mutex (t_d (heap w p))),
        Ev_ref_count_store p 0,
        Ev_hash_table_steal (t_d (heap w p)) (bluez_dbus_path (heap w p)),
        Ev_mutex_unlock (Transports_mutex (t_d (heap w p)))] @
       (if bt_fd (heap w p) \<noteq> -1 then [Ev_close (bt_fd (heap w p))] else []) @
       [Ev_device_unref (t_d (heap w p))] @
       profile_free_events p (heap w p) @
       thread_free_events p THREAD_ENC (thread_enc (heap w p)) @
       thread_free_events p THREAD_DEC (thread_dec (heap w p)) @
       [Ev_mutex_destroy (Bt_fd_mtx p), Ev_mutex_destroy (Type_mtx p),
        Ev_free (Mem_bluez_dbus_owner p), Ev_free (Mem_bluez_dbus_path p),
        Ev_free (Mem_transport p)]" and
    lv: "live w' = live w - {p}" and
    dv: "devices w' = (devices w)(t_d (heap w p) := (devices w (t_d (heap w p)))\<lparr>transports :=
        (case bluez_dbus_path (heap w p) of
           None \<Rightarrow> transports (devices w (t_d (heap w p)))
         | Some k \<Rightarrow> (transports (devices w (t_d (heap w p))))(k := None))\<rparr>)"
    by blast
  have ev: "new_events w w' =
       [Ev_mutex_lock (Transports_mutex (t_d (heap w p))),
        Ev_ref_count_store p 0,
        Ev_hash_table_steal (t_d (heap w p)) (bluez_dbus_path (heap w p)),
        Ev_mutex_unlock (Transports_mutex (t_d (heap w p)))] @
       (if bt_fd (heap w p) \<noteq> -1 then [Ev_close (bt_fd (heap w p))] else []) @
       [Ev_device_unref (t_d (heap w p))] @
       profile_free_events p (heap w p) @
       thread_free_events p THREAD_ENC (thread_enc (heap w p)) @
       thread_free_events p THREAD_DEC (thread_dec (heap w p)) @
       [Ev_mutex_destroy (Bt_fd_mtx p), Ev_mutex_destroy (Type_mtx p),
        Ev_free (Mem_bluez_dbus_owner p), Ev_free (Mem_bluez_dbus_path p),
        Ev_free (Mem_transport p)]"
    by (simp add: new_events_def tr)
  have look: "fst (ba_transport_lookup d k w') = transports (devices w' d) k" for d k
    by (simp add: ba_transport_lookup_def Let_def)
  have own: "fst (ba_transport_lookup (t_d (heap w p)) k w') = None"
    if "bluez_dbus_path (heap w p) = Some k" for k
    using that by (simp add: look dv)
  have tbl: "transports (devices w' d) k \<noteq> Some p" if "table_keys_are_paths w p" for d k
  proof
    assume a: "transports (devices w' d) k = Some p"
    then have b: "transports (devices w d) k = Some p"
      by (auto simp: dv split: if_splits option.splits)
    with that have c: "d = t_d (heap w p)" "bluez_dbus_path (heap w p) = Some k"
      by (auto simp: table_keys_are_paths_def)
    from a c show False by (simp add: dv)
  qed
  have none: "fst (ba_transport_lookup d k w') \<noteq> Some p" if "table_keys_are_paths w p" for d k
    using tbl [OF that] by (simp add: look)
  have after: "p \<notin> live w'' \<and> filter (is_ref_count_store p) (new_events w' w'') = []"
    if k: "table_keys_are_paths w p" and rn: "run ops w' = Inr w''" for ops w''
  proof -
    have u: "unreachable p w'" using tbl [OF k] lv by (simp add: unreachable_def)
    from run_unreachable [OF u rn] run_prefix [OF rn]
    show ?thesis by (auto simp: unreachable_def intro: filter_new_events)
  qed
  show "(\<exists>w'. ba_transport_unref p w = Inr w' \<and>
            new_events w w' =
       [Ev_mutex_lock (Transports_mutex (t_d (heap w p))),
        Ev_ref_count_store p 0,
        Ev_hash_table_steal (t_d (heap w p)) (bluez_dbus_path (heap w p)),
        Ev_mutex_unlock (Transports_mutex (t_d (heap w p)))] @
       (if bt_fd (heap w p) \<noteq> -1 then [Ev_close (bt_fd (heap w p))] else []) @
       [Ev_device_unref (t_d (heap w p))] @
       profile_free_events p (heap w p) @
       thread_free_events p THREAD_ENC (thread_enc (heap w p)) @
       thread_free_events p THREAD_DEC (thread_dec (heap w p)) @
       [Ev_mutex_destroy (Bt_fd_mtx p), Ev_mutex_destroy (Type_mtx p),
        Ev_free (Mem_bluez_dbus_owner p), Ev_free (Mem_bluez_dbus_path p),
        Ev_free (Mem_transport p)] \<and>
            p \<notin> live w' \<and>
            (\<forall>k. bluez_dbus_path (heap w p) = Some k \<longrightarrow>
                 fst (ba_transport_lookup (t_d (heap w p)) k w') = None) \<and>
            (table_keys_are_paths w p \<longrightarrow>
               (\<forall>dv k. fst (ba_transport_lookup dv k w') \<noteq> Some p) \<and>
               (\<forall>ops w''. run ops w' = Inr w'' \<longrightarrow>
                  p \<notin> live w'' \<and>
                  filter (is_ref_count_store p) (new_events w' w'') = [])))"
    using r ev lv own none after by auto
qed

lemma unref_w_a2dp:
  "ba_transport_unref 0 w_a2dp = Inr w' \<Longrightarrow>
   trace w' =
     [Ev_mutex_lock (Transports_mutex 0), Ev_ref_count_store 0 0,
      Ev_hash_table_steal 0 (Some ''/path''),
      Ev_mutex_unlock (Transports_mutex 0),
      Ev_close 5,
      Ev_device_unref 0,
      Ev_mutex_lock (Pcm_mutex 0 A2DP_PCM), Ev_mutex_unlock (Pcm_mutex 0 A2DP_PCM),
      Ev_mutex_destroy (Pcm_mutex 0 A2DP_PCM), Ev_mutex_destroy (Pcm_synced_mtx 0 A2DP_PCM),
      Ev_cond_destroy (Pcm_synced 0 A2DP_PCM), Ev_free (Mem_pcm_ba_dbus_path 0 A2DP_PCM),
      Ev_mutex_lock (Pcm_mutex 0 A2DP_PCM_BC), Ev_mutex_unlock (Pcm_mutex 0 A2DP_PCM_BC),
      Ev_mutex_destroy (Pcm_mutex 0 A2DP_PCM_BC), Ev_mutex_destroy (Pcm_synced_mtx 0 A2DP_PCM_BC),
      Ev_cond_destroy (Pcm_synced 0 A2DP_PCM_BC), Ev_free (Mem_pcm_ba_dbus_path 0 A2DP_PCM_BC),
      Ev_free (Mem_a2dp_configuration 0),
      Ev_close 3, Ev_close 4,
      Ev_mutex_destroy (Th_ready_mtx 0 THREAD_ENC), Ev_cond_destroy (Th_ready 0 THREAD_ENC),
      Ev_close 5, Ev_close 6,
      Ev_mutex_destroy (Th_ready_mtx 0 THREAD_DEC), Ev_cond_destroy (Th_ready 0 THREAD_DEC),
      Ev_mutex_destroy (Bt_fd_mtx 0), Ev_mutex_destroy (Type_mtx 0),
      Ev_free (Mem_bluez_dbus_owner 0), Ev_free (Mem_bluez_dbus_path 0),
      Ev_free (Mem_transport 0)]"
  using unref_zero [of w_a2dp 0]
  by (auto simp: profile_free_events_def pcm_free_events_def thread_free_events_def
        mask_defs ex_defs)

theorem unref_behaviour_witness:
  "ref_count (heap w_a2dp 0) = 1 \<and> table_keys_are_paths w_a2dp 0 \<and>
   fst (ba_transport_lookup 0 ''/path'' w_a2dp) = Some 0 \<and>
   \<not> isl (ba_transport_unref 0 w_a2dp) \<and>
   0 \<notin> live (projr (ba_transport_unref 0 w_a2dp)) \<and>
   fst (ba_transport_lookup 0 ''/path'' (projr (ba_transport_unref 0 w_a2dp))) = None \<and>
   run [Op_lookup 0 ''/path'', Op_unref 0] (projr (ba_transport_unref 0 w_a2dp)) =
     Inl Use_after_free \<and>
   \<not> isl (run [Op_lookup 0 ''/path''] (projr (ba_transport_unref 0 w_a2dp))) \<and>
   filter (is_ref_count_store 0)
     (new_events (projr (ba_transport_unref 0 w_a2dp))
        (projr (run [Op_lookup 0 ''/path''] (projr (ba_transport_unref 0 w_a2dp))))) = [] \<and>
   1 < ref_count (heap w_a2dp_two_refs 0) \<and>
   \<not> isl (ba_transport_unref 0 w_a2dp_two_refs) \<and>
   ref_count (heap (projr (ba_transport_unref 0 w_a2dp_two_refs)) 0) = 1 \<and>
   fst (ba_transport_lookup 0 ''/path'' (projr (ba_transport_unref 0 w_a2dp_two_refs))) = Some 0"
proof -
  have k: "table_keys_are_paths w_a2dp 0"
    by (auto simp: table_keys_are_paths_def ex_defs split: if_splits)
  have one: "ref_count (heap w_a2dp 0) = 1" and two: "1 < ref_count (heap w_a2dp_two_refs 0)"
    and path: "bluez_dbus_path (heap w_a2dp 0) = Some ''/path''"
    and d: "t_d (heap w_a2dp 0) = 0"
    and l0: "fst (ba_transport_lookup 0 ''/path'' w_a2dp) = Some 0"
    by (simp_all add: ba_transport_lookup_def Let_def ex_defs)
  have l2: "fst (ba_transport_lookup 0 ''/path'' w') = Some 0"
    if "devices w' = devices w_a2dp_two_refs" for w'
    using that by (simp add: ba_transport_lookup_def Let_def ex_defs)
  from unref_behaviour [of w_a2dp 0] one k path d obtain w' where
    r: "ba_transport_unref 0 w_a2dp = Inr w'"
    and lv: "0 \<notin> live w'"
    and lk: "fst (ba_transport_lookup 0 ''/path'' w') = None"
    and rn: "\<And>ops w''. run ops w' = Inr w'' \<Longrightarrow>
               filter (is_ref_count_store 0) (new_events w' w'') = []"
    by auto
  have lk': "transports (devices w' 0) ''/path'' = None"
    using lk by (simp add: ba_transport_lookup_def Let_def)
  have r1: "run [Op_lookup 0 ''/path'', Op_unref 0] w' = Inl Use_after_free"
    using lv by (simp add: ba_transport_lookup_def Let_def lk')
  have r2: "run [Op_lookup 0 ''/path''] w' = Inr (snd (ba_transport_lookup 0 ''/path'' w'))"
    by simp
  from rn [OF r2]
  have a: "\<not> isl (ba_transport_unref 0 w_a2dp) \<and>
      0 \<notin> live (projr (ba_transport_unref 0 w_a2dp)) \<and>
      fst (ba_transport_lookup 0 ''/path'' (projr (ba_transport_unref 0 w_a2dp))) = None \<and>
      run [Op_lookup 0 ''/path'', Op_unref 0] (projr (ba_transport_unref 0 w_a2dp)) =
        Inl Use_after_free \<and>
      \<not> isl (run [Op_lookup 0 ''/path''] (projr (ba_transport_unref 0 w_a2dp))) \<and>
      filter (is_ref_count_store 0)
        (new_events (projr (ba_transport_unref 0 w_a2dp))
           (projr (run [Op_lookup 0 ''/path''] (projr (ba_transport_unref 0 w_a2dp))))) = []"
    unfolding r using lv lk r1 by (simp del: run.simps add: r2)
  from unref_behaviour [of w_a2dp_two_refs 0] two l2
  have b: "\<not> isl (ba_transport_unref 0 w_a2dp_two_refs) \<and>
      ref_count (heap (projr (ba_transport_unref 0 w_a2dp_two_refs)) 0) = 1 \<and>
      fst (ba_transport_lookup 0 ''/path'' (projr (ba_transport_unref 0 w_a2dp_two_refs))) = Some 0"
    by (auto simp: ex_defs)
  from a b k one two l0 show ?thesis by simp
qed

text \<open>
  Claim C9 as stated fails in the order of the release: for the A2DP transport with one
  reference the device is unref'd before the first endpoint's mutex is taken, so
  neither the freeing of the endpoints nor that of the thread handles comes before it.
\<close>

theorem unref_device_before_pcms:
  "ref_count (heap w_a2dp 0) = 1 \<and>
   \<not> isl (ba_transport_unref 0 w_a2dp) \<and>
   occurs_before (Ev_device_unref 0) (Ev_mutex_lock (Pcm_mutex 0 A2DP_PCM))
     (trace (projr (ba_transport_unref 0 w_a2dp))) \<and>
   \<not> occurs_before (Ev_free (Mem_pcm_ba_dbus_path 0 A2DP_PCM_BC)) (Ev_device_unref 0)
     (trace (projr (ba_transport_unref 0 w_a2dp))) \<and>
   \<not> occurs_before (Ev_cond_destroy (Th_ready 0 THREAD_DEC)) (Ev_device_unref 0)
     (trace (projr (ba_transport_unref 0 w_a2dp)))"
proof -
  have one: "ref_count (heap w_a2dp 0) = 1" by (simp add: ex_defs)
  from unref_zero [OF one] obtain w' where r: "ba_transport_unref 0 w_a2dp = Inr w'" by blast
  show ?thesis
    unfolding r using one by (simp add: unref_w_a2dp [OF r])
qed

subsection \<open>Signals to the worker threads\<close>

text \<open>
  Claim C10. Drop writes \<^verbatim>\<open>PCM_DROP\<close> to the pipe of the transport's encoder slot,
  whichever thread the endpoint belongs to; pause and resume write their signals to
  the pipe of the endpoint's own thread. Each makes this one call and returns 0,
  whatever \<^verbatim>\<open>write\<close> returns.
\<close>

theorem pcm_signals:
  "ba_transport_pcm_drop env p pcm w =
     (0, emit [Ev_write (th_pipe_wr (thread_enc (heap w p))) BA_TRANSPORT_SIGNAL_PCM_DROP] w) \<and>
   (pcm_th (pcm_of pcm (heap w p)) = Some th \<longrightarrow>
      ba_transport_pcm_pause env p pcm w =
        Inr (0, emit [Ev_write (th_pipe_wr (thread_of th (heap w p)))
                        BA_TRANSPORT_SIGNAL_PCM_PAUSE] w) \<and>
      ba_transport_pcm_resume env p pcm w =
        Inr (0, emit [Ev_write (th_pipe_wr (thread_of th (heap w p)))
                        BA_TRANSPORT_SIGNAL_PCM_RESUME] w))"
  by (simp add: ba_transport_pcm_drop_def ba_transport_pcm_pause_def ba_transport_pcm_resume_def
      ba_transport_thread_send_signal_def Let_def)

theorem pcm_signals_witness:
  "pcm_th (pcm_of A2DP_PCM (heap w_a2dp 0)) = Some THREAD_DEC \<and>
   e_write env_fail 6 BA_TRANSPORT_SIGNAL_PCM_PAUSE = -1 \<and>
   ba_transport_pcm_drop env_fail 0 A2DP_PCM w_a2dp =
     (0, w_a2dp\<lparr>trace := [Ev_write 4 BA_TRANSPORT_SIGNAL_PCM_DROP]\<rparr>) \<and>
   ba_transport_pcm_pause env_fail 0 A2DP_PCM w_a2dp =
     Inr (0, w_a2dp\<lparr>trace := [Ev_write 6 BA_TRANSPORT_SIGNAL_PCM_PAUSE]\<rparr>) \<and>
   ba_transport_pcm_resume env_fail 0 A2DP_PCM w_a2dp =
     Inr (0, w_a2dp\<lparr>trace := [Ev_write 6 BA_TRANSPORT_SIGNAL_PCM_RESUME]\<rparr>)"
  using pcm_signals [of env_fail 0 A2DP_PCM w_a2dp THREAD_DEC]
  by (simp add: ex_defs)

end
